theory Spec2Isabelle
  imports Complex_Main "HOL-Library.Multiset"
begin

section \<open>Numbers\<close>

text \<open>
  The pipeline computes with numpy/pandas \<open>float64\<close> values. A finite value is modelled by
  the real number it denotes; NaN and the two infinities are values of their own, as numpy
  produces them on a division by zero and propagates them, because \<open>fillna(0)\<close> and
  \<open>np.isclose\<close> depend on them. Signed zeros are not distinguished (the divisors that
  reach zero here are sums, which are \<open>+0.0\<close>).
\<close>

datatype float64 = Fin real | PInf | NInf | NaN

text \<open>
  Every arithmetic operation computes its exact result and rounds it. The rounding is a
  parameter of the operations and of everything built on them. The code runs with
  \<open>Binary64\<close>, the rounding of IEEE 754 binary64 (\<open>round64\<close> below): to the nearest
  number with 53 significant bits, a tie to the one whose last bit is even, below
  \<open>2^-1022\<close> to the nearest multiple of \<open>2^-1074\<close>, and to an infinity from \<open>2^1024\<close>
  on. The rounding \<open>Exact\<close> changes nothing: with it the operations are those of the
  real numbers, in which the numerical laws of the specification are stated.
\<close>

datatype rounding = Exact | Binary64

text \<open>The integer nearest to \<open>x\<close>, the even one of the two when \<open>x\<close> lies halfway.\<close>

definition rne :: "real \<Rightarrow> int" where
  "rne x = (let n = \<lfloor>x\<rfloor>; r = x - of_int n in
     if r < 1 / 2 then n else if 1 / 2 < r then n + 1 else if even n then n else n + 1)"

text \<open>
  The binary exponent of a positive number: \<open>e\<close> with \<open>2^e \<le> x < 2^(e+1)\<close>, found by
  halving or doubling. The search is cut off after \<open>n\<close> steps; \<open>round64\<close> gives it more
  steps than the exponent range of binary64 has.
\<close>

fun binade :: "nat \<Rightarrow> real \<Rightarrow> int" where
  "binade 0 x = 0"
| "binade (Suc n) x =
     (if x < 1 then binade n (2 * x) - 1 else if 2 \<le> x then binade n (x / 2) + 1 else 0)"

definition pow2 :: "int \<Rightarrow> real" where
  "pow2 e = (if 0 \<le> e then 2 ^ nat e else 1 / 2 ^ nat (- e))"

definition round64 :: "real \<Rightarrow> float64" where
  "round64 x =
     (if x = 0 then Fin 0
      else let e = max (binade 1100 \<bar>x\<bar>) (- 1022);
               q = pow2 (e - 52);
               y = of_int (rne (\<bar>x\<bar> / q)) * q
           in if pow2 1024 \<le> y then (if 0 < x then PInf else NInf)
              else Fin (if 0 < x then y else - y))"

fun rounded :: "rounding \<Rightarrow> real \<Rightarrow> float64" where
  "rounded Exact x = Fin x"
| "rounded Binary64 x = round64 x"

fun isnan :: "float64 \<Rightarrow> bool" where
  "isnan NaN = True"
| "isnan _ = False"

fun isfinite :: "float64 \<Rightarrow> bool" where
  "isfinite (Fin _) = True"
| "isfinite _ = False"

fun fadd :: "rounding \<Rightarrow> float64 \<Rightarrow> float64 \<Rightarrow> float64" where
  "fadd rnd (Fin x) (Fin y) = rounded rnd (x + y)"
| "fadd rnd NaN _ = NaN"
| "fadd rnd _ NaN = NaN"
| "fadd rnd PInf NInf = NaN"
| "fadd rnd NInf PInf = NaN"
| "fadd rnd PInf _ = PInf"
| "fadd rnd _ PInf = PInf"
| "fadd rnd NInf _ = NInf"
| "fadd rnd _ NInf = NInf"

fun fneg :: "float64 \<Rightarrow> float64" where
  "fneg (Fin x) = Fin (- x)"
| "fneg PInf = NInf"
| "fneg NInf = PInf"
| "fneg NaN = NaN"

fun fabs :: "float64 \<Rightarrow> float64" where
  "fabs (Fin x) = Fin \<bar>x\<bar>"
| "fabs PInf = PInf"
| "fabs NInf = PInf"
| "fabs NaN = NaN"

definition fsub :: "rounding \<Rightarrow> float64 \<Rightarrow> float64 \<Rightarrow> float64" where
  "fsub rnd a b = fadd rnd a (fneg b)"

text \<open>The infinity with the sign of \<open>s\<close>; NaN for \<open>s = 0\<close> (\<open>0 * inf\<close>, \<open>0 / 0\<close>).\<close>

definition inf_of_sign :: "real \<Rightarrow> float64" where
  "inf_of_sign s = (if s = 0 then NaN else if 0 < s then PInf else NInf)"

fun fmul :: "rounding \<Rightarrow> float64 \<Rightarrow> float64 \<Rightarrow> float64" where
  "fmul rnd (Fin x) (Fin y) = rounded rnd (x * y)"
| "fmul rnd NaN _ = NaN"
| "fmul rnd _ NaN = NaN"
| "fmul rnd (Fin x) PInf = inf_of_sign x"
| "fmul rnd (Fin x) NInf = inf_of_sign (- x)"
| "fmul rnd PInf (Fin y) = inf_of_sign y"
| "fmul rnd NInf (Fin y) = inf_of_sign (- y)"
| "fmul rnd PInf PInf = PInf"
| "fmul rnd PInf NInf = NInf"
| "fmul rnd NInf PInf = NInf"
| "fmul rnd NInf NInf = PInf"

text \<open>
  numpy's division: a finite value divided by zero is an infinity of its sign, \<open>0 / 0\<close> is
  NaN, and nothing is raised.
\<close>

fun fdiv :: "rounding \<Rightarrow> float64 \<Rightarrow> float64 \<Rightarrow> float64" where
  "fdiv rnd (Fin x) (Fin y) = (if y = 0 then inf_of_sign x else rounded rnd (x / y))"
| "fdiv rnd NaN _ = NaN"
| "fdiv rnd _ NaN = NaN"
| "fdiv rnd (Fin x) _ = Fin 0"
| "fdiv rnd PInf (Fin y) = (if 0 \<le> y then PInf else NInf)"
| "fdiv rnd NInf (Fin y) = (if 0 \<le> y then NInf else PInf)"
| "fdiv rnd _ _ = NaN"

text \<open>The comparisons \<open><\<close> and \<open><=\<close> of two floats: false whenever one of them is NaN.\<close>

fun flt :: "float64 \<Rightarrow> float64 \<Rightarrow> bool" where
  "flt (Fin x) (Fin y) = (x < y)"
| "flt NaN _ = False"
| "flt _ NaN = False"
| "flt _ NInf = False"
| "flt PInf _ = False"
| "flt NInf _ = True"
| "flt _ PInf = True"

fun fle :: "float64 \<Rightarrow> float64 \<Rightarrow> bool" where
  "fle (Fin x) (Fin y) = (x \<le> y)"
| "fle NaN _ = False"
| "fle _ NaN = False"
| "fle NInf _ = True"
| "fle _ PInf = True"
| "fle _ _ = False"

text \<open>
  \<open>ndarray.sum()\<close>: every element is added, so a NaN element makes the sum NaN. The
  elements are added from the first to the last, which is the order of numpy for fewer
  than eight elements; on longer arrays numpy adds in blocks, and gives the same sum
  whenever the additions are exact.
\<close>

definition array_sum :: "rounding \<Rightarrow> float64 list \<Rightarrow> float64" where
  "array_sum rnd xs = foldl (fadd rnd) (Fin 0) xs"

text \<open>\<open>Series.sum()\<close> of pandas, with its default \<open>skipna=True\<close>: NaN entries are left out.\<close>

definition series_sum :: "rounding \<Rightarrow> float64 list \<Rightarrow> float64" where
  "series_sum rnd xs = array_sum rnd (filter (\<lambda>v. \<not> isnan v) xs)"

text \<open>\<open>Series.fillna(v)\<close>: the NaN entries, and only those, become \<open>v\<close>.\<close>

definition fillna :: "float64 \<Rightarrow> float64 list \<Rightarrow> float64 list" where
  "fillna v xs = map (\<lambda>x. if isnan x then v else x) xs"

section \<open>Errors\<close>

datatype py_error = IndexError | ZeroDivisionError | ValueError | OverflowError

section \<open>Tables\<close>

text \<open>
  A row of \<open>EPA_ferro_emissions\<close>, the state inventory: the columns \<open>state_code\<close>,
  \<open>year\<close> and \<open>ch4_kt\<close>. A data frame is the list of its rows, in order.
\<close>

record state_year_row =
  state_code :: string
  year :: int
  ch4_kt :: float64

text \<open>
  The Series that \<open>groupby([state_code, year])[ch4_kt].transform\<close> hands to the function:
  the \<open>ch4_kt\<close> entries of one group, named by the group's key.
\<close>

record group_series =
  name :: "string \<times> int"
  entries :: "float64 list"

text \<open>\<open>Series.iat[0]\<close>: the first entry; IndexError on an empty selection.\<close>

definition iat0 :: "'a list \<Rightarrow> py_error + 'a" where
  "iat0 xs = (case xs of [] \<Rightarrow> Inl IndexError | x # _ \<Rightarrow> Inr x)"

section \<open>The proportional allocator\<close>

text \<open>
  Lines 461 to 463 of \<open>2C2_ferroalloy_production.py\<close>: the inventory rows of the state and
  year are selected with a boolean mask and the first \<open>ch4_kt\<close> of the selection is read.
\<close>

definition emi_sum_lookup :: "string \<Rightarrow> int \<Rightarrow> state_year_row list \<Rightarrow> py_error + float64" where
  "emi_sum_lookup state yr inventory_df =
     iat0 (map ch4_kt (filter (\<lambda>r. state_code r = state \<and> year r = yr) inventory_df))"

text \<open>
  Lines 467 to 469: \<open>((fac_emissions / fac_emissions.sum()) * emi_sum).fillna(0)\<close>.
\<close>

definition allocated_fac_emissions :: "rounding \<Rightarrow> float64 list \<Rightarrow> float64 \<Rightarrow> float64 list" where
  "allocated_fac_emissions rnd fac emi_sum =
     fillna (Fin 0) (map (\<lambda>v. fmul rnd (fdiv rnd v (series_sum rnd fac)) emi_sum) fac)"

definition state_year_allocation_emissions ::
  "rounding \<Rightarrow> group_series \<Rightarrow> state_year_row list \<Rightarrow> py_error + float64 list" where
  "state_year_allocation_emissions rnd fac_emissions inventory_df =
     (case name fac_emissions of (state, yr) \<Rightarrow>
        (case emi_sum_lookup state yr inventory_df of
           Inl e \<Rightarrow> Inl e
         | Inr emi_sum \<Rightarrow> Inr (allocated_fac_emissions rnd (entries fac_emissions) emi_sum)))"



section \<open>The conversion utility\<close>

text \<open>
  The constants of \<open>gch4i/utils.py\<close>: \<open>Avogadro = 6.02214129 * 10 ** (23)\<close>, the product
  of the float \<open>6.02214129\<close> and the integer \<open>10 ** 23\<close>, and \<open>Molarch4 = 16.04\<close>. A
  decimal literal is the float nearest to it.
\<close>

definition Avogadro :: "rounding \<Rightarrow> float64" where
  "Avogadro rnd = fmul rnd (rounded rnd 6.02214129) (rounded rnd (10 ^ 23))"

definition Molarch4 :: "rounding \<Rightarrow> float64" where
  "Molarch4 rnd = rounded rnd 16.04"

text \<open>
  An integer operand of a float operation is converted to the nearest float; Python raises
  OverflowError for an integer beyond the range of the floats.
\<close>

definition float_of_int :: "rounding \<Rightarrow> int \<Rightarrow> py_error + float64" where
  "float_of_int rnd i = (case rounded rnd (of_int i) of Fin x \<Rightarrow> Inr (Fin x) | _ \<Rightarrow> Inl OverflowError)"

text \<open>
  The division of one Python float by another raises ZeroDivisionError when the divisor
  is zero; numpy's division of a float by an array does not (\<open>fdiv\<close> above).
\<close>

definition py_truediv :: "rounding \<Rightarrow> float64 \<Rightarrow> float64 \<Rightarrow> py_error + float64" where
  "py_truediv rnd a b = (if b = Fin 0 then Inl ZeroDivisionError else Inr (fdiv rnd a b))"

text \<open>
  \<open>10**9 * Avogadro / float(Molarch4 * year_days * 24 * 60 * 60) / area_matrix\<close>: the
  products are taken from left to right, the scalar quotient is a Python float, and it is
  then divided by every cell of the matrix.
\<close>

definition calc_conversion_factor ::
  "rounding \<Rightarrow> int \<Rightarrow> float64 list list \<Rightarrow> py_error + float64 list list" where
  "calc_conversion_factor rnd year_days area_matrix =
     (case float_of_int rnd year_days of
        Inl e \<Rightarrow> Inl e
      | Inr days \<Rightarrow>
          (case py_truediv rnd (fmul rnd (rounded rnd (10 ^ 9)) (Avogadro rnd))
                  (fmul rnd (fmul rnd (fmul rnd (fmul rnd (Molarch4 rnd) days) (rounded rnd 24)) (rounded rnd 60))
                     (rounded rnd 60)) of
             Inl e \<Rightarrow> Inl e
           | Inr c \<Rightarrow> Inr (map (map (\<lambda>a. fdiv rnd c a)) area_matrix)))"

text \<open>
  The factor as the specification writes it:
  \<open>1e9 * 6.02214129e23 / (16.04 * days_in_year * 86400) / cell_area\<close>, as a real number
  and as the same expression evaluated with floats.
\<close>

definition flux_factor :: "int \<Rightarrow> real \<Rightarrow> real" where
  "flux_factor days_in_year cell_area =
     10 ^ 9 * (6.02214129 * 10 ^ 23) / (16.04 * of_int days_in_year * 86400) / cell_area"

definition flux_factor_float :: "rounding \<Rightarrow> int \<Rightarrow> float64 \<Rightarrow> float64" where
  "flux_factor_float rnd days_in_year cell_area =
     fdiv rnd
       (fdiv rnd (fmul rnd (rounded rnd (10 ^ 9)) (rounded rnd (6.02214129 * 10 ^ 23)))
          (fmul rnd (fmul rnd (rounded rnd 16.04) (rounded rnd (of_int days_in_year))) (rounded rnd 86400)))
       cell_area"

section \<open>The grid\<close>

text \<open>
  An affine transform \<open>Affine(a, b, c, d, e, f)\<close> as rasterio uses it: pixel coordinates
  \<open>(col, row)\<close> go to \<open>x = a * col + b * row + c\<close> and \<open>y = d * col + e * row + f\<close>.
\<close>

record affine =
  aff_a :: real
  aff_b :: real
  aff_c :: real
  aff_d :: real
  aff_e :: real
  aff_f :: real

text \<open>
  The module \<open>gch4i.gridding\<close> is not among the sources; what the pipeline imports from it
  is a parameter of the model: the array shape \<open>ARR_SHAPE\<close> (rows, columns), the entries
  \<open>crs\<close> and \<open>transform\<close> of \<open>GEPA_PROFILE\<close>, and the coordinate vectors \<open>x\<close> and \<open>y\<close>.
\<close>

record gridding =
  ARR_SHAPE :: "nat \<times> nat"
  GEPA_crs :: string
  GEPA_transform :: affine
  grid_x :: "real list"
  grid_y :: "real list"

type_synonym grid = "float64 list list"

section \<open>The NetCDF output\<close>

text \<open>\<open>str\<close> of an integer, as an f-string formats it.\<close>

fun nat_digits :: "nat \<Rightarrow> string" where
  "nat_digits n =
     (if n < 10 then [''0123456789'' ! n] else nat_digits (n div 10) @ [''0123456789'' ! (n mod 10)])"

definition str_int :: "int \<Rightarrow> string" where
  "str_int i = (if i < 0 then CHR ''-'' # nat_digits (nat (- i)) else nat_digits (nat i))"

text \<open>
  A path, as far as \<open>with_suffix\<close> needs it: the part before the suffix of the final
  component, and the suffix.
\<close>

record path =
  stem :: string
  suffix :: string

definition with_suffix :: "path \<Rightarrow> string \<Rightarrow> path" where
  "with_suffix p s = p\<lparr>suffix := s\<rparr>"

text \<open>
  What \<open>to_netcdf\<close> is given to write: the stacked arrays with their dimensions and
  coordinates, the attributes set by \<open>rio.set_attrs\<close>, the CRS and the transform written by
  \<open>rio.write_crs\<close> and \<open>rio.write_transform\<close>, the spatial dimensions, and the encoded nodata
  value of \<open>rio.write_nodata\<close>.
\<close>

record netcdf_file =
  dst :: path
  dims :: "string list"
  time_coord :: "int list"
  lat_coord :: "real list"
  lon_coord :: "real list"
  array_stack :: "grid list"
  attrs :: "(string \<times> string) list"
  written_crs :: string
  written_transform :: affine
  spatial_dims :: "string \<times> string"
  nodata :: float64

definition array_shape :: "grid \<Rightarrow> nat \<times> nat list" where
  "array_shape g = (length g, map length g)"

text \<open>
  \<open>write_ncdf_output(raster_dict, dst_path, description, title, units)\<close>. The dictionary
  is the list of its items in insertion order. \<open>np.stack\<close> raises ValueError on an empty
  list and on arrays of different shapes, and \<open>xr.DataArray\<close> raises ValueError when a
  coordinate vector does not have the length of its dimension. The function returns None;
  the model returns the file it writes.
\<close>

definition write_ncdf_output ::
  "gridding \<Rightarrow> (int \<times> grid) list \<Rightarrow> path \<Rightarrow> string \<Rightarrow> string \<Rightarrow> string
    \<Rightarrow> py_error + netcdf_file" where
  "write_ncdf_output G raster_dict dst_path description title units =
     (let year_list = map fst raster_dict; arrays = map snd raster_dict in
      case raster_dict of
        [] \<Rightarrow> Inl ValueError
      | (y, g) # rest \<Rightarrow>
          if \<not> list_all (\<lambda>g'. array_shape g' = array_shape g) (map snd rest) then Inl ValueError
          else if array_shape g \<noteq> (length (grid_y G), replicate (length (grid_y G)) (length (grid_x G)))
          then Inl ValueError
          else Inr \<lparr>dst = with_suffix dst_path ''.nc'',
                    dims = [''time'', ''lat'', ''lon''],
                    time_coord = year_list,
                    lat_coord = grid_y G,
                    lon_coord = grid_x G,
                    array_stack = arrays,
                    attrs = [(''title'', title),
                             (''description'', description),
                             (''year'', str_int (fold min (map fst rest) y) @ ''-''
                                        @ str_int (fold max (map fst rest) y)),
                             (''units'', units)],
                    written_crs = GEPA_crs G,
                    written_transform = GEPA_transform G,
                    spatial_dims = (''lon'', ''lat''),
                    nodata = Fin 0\<rparr>)"

text \<open>
  The names declared at the head of \<open>2C2_ferroalloy_production.py\<close> (lines 66 to 78).
  \<open>tmp_data_dir_path\<close> comes from \<open>gch4i.config\<close>, which is not among the sources, and is
  a parameter.
\<close>

definition IPCC_ID :: string where
  "IPCC_ID = ''2C2''"

definition SECTOR_NAME :: string where
  "SECTOR_NAME = ''industry''"

definition SOURCE_NAME :: string where
  "SOURCE_NAME = ''ferroalloy production''"

definition FULL_NAME :: string where
  "FULL_NAME = map (\<lambda>c. if c = CHR '' '' then CHR ''_'' else c)
                 (IPCC_ID @ ''_'' @ SECTOR_NAME @ ''_'' @ SOURCE_NAME)"

definition netcdf_title :: string where
  "netcdf_title = ''EPA methane emissions from '' @ SOURCE_NAME"

definition netcdf_description :: string where
  "netcdf_description =
     ''Gridded EPA Inventory - '' @ SECTOR_NAME @ '' - '' @ SOURCE_NAME
       @ '' - IPCC Source Category '' @ IPCC_ID"

definition ch4_flux_dst_path :: "string \<Rightarrow> path" where
  "ch4_flux_dst_path tmp_data_dir_path =
     \<lparr>stem = tmp_data_dir_path @ ''/'' @ FULL_NAME @ ''_ch4_emi_flux'', suffix = ''''\<rparr>"

text \<open>
  The call that writes the flux rasters (lines 602 to 607). Its arguments are positional:
  \<open>netcdf_title\<close> is the third, which is the parameter \<open>description\<close>, and
  \<open>netcdf_description\<close> is the fourth, which is the parameter \<open>title\<close>; \<open>units\<close> takes its
  default.
\<close>

definition write_flux_ncdf :: "gridding \<Rightarrow> string \<Rightarrow> (int \<times> grid) list \<Rightarrow> py_error + netcdf_file" where
  "write_flux_ncdf G tmp_data_dir_path ch4_flux_result_rasters =
     write_ncdf_output G ch4_flux_result_rasters
       (with_suffix (ch4_flux_dst_path tmp_data_dir_path) ''.nc'')
       netcdf_title netcdf_description ''moleccm-2s-1''"

section \<open>The name formatter\<close>

text \<open>
  Strings are lists of characters. The model covers ASCII text: \<open>str.casefold\<close> maps the
  letters A to Z to a to z and leaves every other ASCII character as it is. (On other
  characters Python's case folding follows the Unicode tables, which are not modelled.)
\<close>

definition ascii :: "string \<Rightarrow> bool" where
  "ascii s = (\<forall>c \<in> set s. (of_char c :: nat) < 128)"

definition casefold_char :: "char \<Rightarrow> char" where
  "casefold_char c =
     (case map_of (zip ''ABCDEFGHIJKLMNOPQRSTUVWXYZ'' ''abcdefghijklmnopqrstuvwxyz'') c of
        Some l \<Rightarrow> l
      | None \<Rightarrow> c)"

definition casefold :: "string \<Rightarrow> string" where
  "casefold s = map casefold_char s"

text \<open>
  The ASCII characters that \<open>\s\<close> matches in a Python 3 string pattern: tab, line feed,
  vertical tab, form feed, carriage return, the four separators 0x1C to 0x1F, and space.
\<close>

definition is_space :: "char \<Rightarrow> bool" where
  "is_space c = (c \<in> set [CHR 0x09, CHR 0x0A, CHR 0x0B, CHR 0x0C, CHR 0x0D,
                            CHR 0x1C, CHR 0x1D, CHR 0x1E, CHR 0x1F, CHR '' ''])"

text \<open>
  \<open>re.sub("\s+", " ", s)\<close>, which is what \<open>.str.replace("\s+", " ", regex=True)\<close> does to
  an element: scanning from the left, every maximal run of whitespace becomes one space.
\<close>

function re_sub_spaces :: "string \<Rightarrow> string" where
  "re_sub_spaces [] = []"
| "re_sub_spaces (c # cs) =
     (if is_space c then CHR '' '' # re_sub_spaces (dropWhile is_space cs)
      else c # re_sub_spaces cs)"
  by pat_completeness auto
termination
  by (relation "measure length") (auto simp: less_Suc_eq_le length_dropWhile_le)

text \<open>The characters outside the class \<open>[^a-zA-Z0-9 -]\<close>, which the pattern does not match.\<close>

definition in_kept_class :: "char \<Rightarrow> bool" where
  "in_kept_class c =
     (c \<in> set ''abcdefghijklmnopqrstuvwxyzABCDEFGHIJKLMNOPQRSTUVWXYZ0123456789 -'')"

text \<open>
  \<open>Series.replace("[^a-zA-Z0-9 -]", "", regex=True)\<close>. With \<open>regex=True\<close> and a string
  as the replacement pandas substitutes inside every string element (its documentation:
  "Regex substitution is performed under the hood with re.sub"): each match, that is each
  character outside the class, is replaced by the empty string. Entries that are not
  strings (missing values) are left as they are.
\<close>

definition re_sub_non_alnum :: "string \<Rightarrow> string" where
  "re_sub_non_alnum s = filter in_kept_class s"

text \<open>A Series of names: \<open>None\<close> is a missing entry, which the \<open>.str\<close> methods pass on.\<close>

definition name_formatter :: "string option list \<Rightarrow> string option list" where
  "name_formatter col =
     map (map_option re_sub_non_alnum) (map (map_option re_sub_spaces) (map (map_option casefold) col))"

section \<open>The rasterizer\<close>

text \<open>
  A geometry of the facility table is a point \<open>(x, y)\<close> (longitude, latitude) or is empty,
  when the facility has no location.
\<close>

type_synonym point = "real \<times> real"

type_synonym geometry = "point option"

text \<open>
  Modelled from the spec: the cell of a point. The grid transform is in \<open>gch4i.gridding\<close>
  and the assignment of points to cells is done inside the rasterizer, neither of which is
  among the sources; section 4.2 of the specification gives it as "row/col from an affine
  inverse, floor-based cell assignment". A transform has an inverse when its determinant
  is not zero; a point outside the grid, like an empty geometry, has no cell.
\<close>

definition invertible :: "affine \<Rightarrow> bool" where
  "invertible t = (aff_a t * aff_e t - aff_b t * aff_d t \<noteq> 0)"

definition rowcol :: "affine \<Rightarrow> point \<Rightarrow> int \<times> int" where
  "rowcol t p =
     (case p of (x, y) \<Rightarrow>
        let det = aff_a t * aff_e t - aff_b t * aff_d t;
            col = (aff_e t * (x - aff_c t) - aff_b t * (y - aff_f t)) / det;
            row = (aff_a t * (y - aff_f t) - aff_d t * (x - aff_c t)) / det
        in (\<lfloor>row\<rfloor>, \<lfloor>col\<rfloor>))"

definition cell_of :: "affine \<Rightarrow> nat \<times> nat \<Rightarrow> geometry \<Rightarrow> (nat \<times> nat) option" where
  "cell_of t out_shape geom =
     (case geom of
        None \<Rightarrow> None
      | Some p \<Rightarrow>
          (case rowcol t p of (r, c) \<Rightarrow>
             if 0 \<le> r \<and> r < int (fst out_shape) \<and> 0 \<le> c \<and> c < int (snd out_shape)
             then Some (nat r, nat c) else None))"

text \<open>
  Modelled from the spec: \<open>rasterio.features.rasterize\<close> is a library function and only
  its call (lines 522 to 532) is in the sources. The model follows section 4.2 of the
  specification and the arguments of the call: the output has the shape \<open>out_shape\<close> and
  starts filled with \<open>fill\<close>; with \<open>merge_alg=MergeAlg.add\<close> the value of a feature is
  added to the cell of its point, one feature after the other, and a feature without a
  cell burns nothing. The rasterizer fails when the transform has no inverse.
\<close>

definition burn :: "rounding \<Rightarrow> grid \<Rightarrow> nat \<times> nat \<Rightarrow> float64 \<Rightarrow> grid" where
  "burn rnd g rc v = (case rc of (r, c) \<Rightarrow> g[r := (g ! r)[c := fadd rnd (g ! r ! c) v]])"

definition burn_shape :: "rounding \<Rightarrow> affine \<Rightarrow> nat \<times> nat \<Rightarrow> grid \<Rightarrow> geometry \<times> float64 \<Rightarrow> grid" where
  "burn_shape rnd t out_shape g s =
     (case cell_of t out_shape (fst s) of None \<Rightarrow> g | Some rc \<Rightarrow> burn rnd g rc (snd s))"

definition rasterize ::
  "rounding \<Rightarrow> (geometry \<times> float64) list \<Rightarrow> nat \<times> nat \<Rightarrow> float64 \<Rightarrow> affine \<Rightarrow> py_error + grid" where
  "rasterize rnd shapes out_shape fill transform =
     (if \<not> invertible transform then Inl ValueError
      else Inr (foldl (burn_shape rnd transform out_shape)
                  (replicate (fst out_shape) (replicate (snd out_shape) fill)) shapes))"

definition has_shape :: "grid \<Rightarrow> nat \<times> nat \<Rightarrow> bool" where
  "has_shape g out_shape =
     (length g = fst out_shape \<and> (\<forall>row \<in> set g. length row = snd out_shape))"

text \<open>The values of the features whose point falls in the cell \<open>rc\<close>, in input order.\<close>

definition cell_entries ::
  "affine \<Rightarrow> nat \<times> nat \<Rightarrow> nat \<times> nat \<Rightarrow> (geometry \<times> float64) list \<Rightarrow> float64 list" where
  "cell_entries t out_shape rc shapes =
     map snd (filter (\<lambda>s. cell_of t out_shape (fst s) = Some rc) shapes)"

section \<open>The pipeline from the facility table to the yearly rasters\<close>

text \<open>
  A row of the facility table \<open>ferro_facilities_gdf\<close>: the columns of a state and year
  row and the geometry. (The name columns play no part in the steps modelled here.) After
  step 4 a row also has the column \<open>allocated_ch4_kt\<close>.
\<close>

record fac_row = state_year_row +
  geometry :: geometry

record gdf_row = fac_row +
  allocated_ch4_kt :: float64

definition with_allocated :: "fac_row \<Rightarrow> float64 \<Rightarrow> gdf_row" where
  "with_allocated r v =
     \<lparr>state_code = state_code r, year = year r, ch4_kt = ch4_kt r, geometry = geometry r,
      allocated_ch4_kt = v\<rparr>"

text \<open>The key of \<open>groupby(["state_code", "year"])\<close>.\<close>

definition row_key :: "'a state_year_row_scheme \<Rightarrow> string \<times> int" where
  "row_key r = (state_code r, year r)"

definition group_entries :: "string \<times> int \<Rightarrow> 'a state_year_row_scheme list \<Rightarrow> float64 list" where
  "group_entries k df = map ch4_kt (filter (\<lambda>r. row_key r = k) df)"

text \<open>The results of a list of computations: the first error, or all the values.\<close>

fun collect :: "(py_error + 'a) list \<Rightarrow> py_error + 'a list" where
  "collect [] = Inr []"
| "collect (Inl e # _) = Inl e"
| "collect (Inr x # rs) = (case collect rs of Inl e \<Rightarrow> Inl e | Inr xs \<Rightarrow> Inr (x # xs))"

text \<open>
  Lines 476 to 478: \<open>groupby(["state_code", "year"])["ch4_kt"].transform(
  state_year_allocation_emissions, inventory_df=EPA_ferro_emissions)\<close>. pandas calls the
  function on the \<open>ch4_kt\<close> entries of every group and writes the result of a group back
  to the rows of the group, in their order; an exception of the function ends the
  statement. The model reads, for the row at index \<open>i\<close>, the entry of the result of its
  group at the position the row has within the group. (pandas raises ValueError when a
  result has not the length of its group; the allocator never returns such a result.)
\<close>

definition transform_allocation :: "rounding \<Rightarrow> fac_row list \<Rightarrow> state_year_row list \<Rightarrow> py_error + gdf_row list" where
  "transform_allocation rnd facilities inventory_df =
     collect (map (\<lambda>i.
        let r = facilities ! i; k = row_key r in
        case state_year_allocation_emissions rnd
               \<lparr>name = k, entries = group_entries k facilities\<rparr> inventory_df of
          Inl e \<Rightarrow> Inl e
        | Inr res \<Rightarrow>
            (let pos = length (filter (\<lambda>r'. row_key r' = k) (take i facilities)) in
             if pos < length res then Inr (with_allocated r (res ! pos)) else Inl ValueError))
       [0..<length facilities])"

text \<open>
  \<open>np.isclose(a, b)\<close> with its default tolerances \<open>rtol=1e-05\<close> and \<open>atol=1e-08\<close>:
  \<open>abs(a - b) <= atol + rtol * abs(b)\<close> for finite values, computed with floats,
  equality for infinities, and false when one of the two is NaN.
\<close>

definition isclose :: "rounding \<Rightarrow> float64 \<Rightarrow> float64 \<Rightarrow> bool" where
  "isclose rnd a b =
     (if isfinite a \<and> isfinite b
      then fle (fabs (fsub rnd a b))
             (fadd rnd (rounded rnd (1 / 10 ^ 8)) (fmul rnd (rounded rnd (1 / 10 ^ 5)) (fabs b)))
      else a = b \<and> \<not> isnan a)"

text \<open>
  Lines 483 to 493, the table \<open>sum_check\<close>: the sum of \<open>allocated_ch4_kt\<close> of every group
  of the facility table, merged with the inventory on state and year with \<open>how="outer"\<close>
  (a key that only one side has gets NaN in the columns of the other side), and the
  column \<open>check_diff\<close>. The columns \<open>state_code\<close>, \<open>year\<close>, \<open>allocated_ch4_kt\<close> and
  \<open>ch4_kt\<close> of that table carry the prefix \<open>sc_\<close> here. (pandas orders the rows by key;
  nothing below depends on the order.)
\<close>

record sum_check_row =
  sc_state_code :: string
  sc_year :: int
  sc_allocated_ch4_kt :: float64
  sc_ch4_kt :: float64
  check_diff :: bool

definition sum_check_entry :: "rounding \<Rightarrow> string \<times> int \<Rightarrow> float64 \<Rightarrow> float64 \<Rightarrow> sum_check_row" where
  "sum_check_entry rnd k allocated inventory =
     \<lparr>sc_state_code = fst k, sc_year = snd k, sc_allocated_ch4_kt = allocated,
      sc_ch4_kt = inventory, check_diff = isclose rnd allocated inventory\<rparr>"

definition sum_check :: "rounding \<Rightarrow> gdf_row list \<Rightarrow> state_year_row list \<Rightarrow> sum_check_row list" where
  "sum_check rnd gdf inventory_df =
     (let keys = remdups (map row_key gdf);
          grouped = map (\<lambda>k. (k, series_sum rnd (map allocated_ch4_kt
                                     (filter (\<lambda>r. row_key r = k) gdf)))) keys
      in concat (map (\<lambda>(k, a).
                   case filter (\<lambda>m. row_key m = k) inventory_df of
                     [] \<Rightarrow> [sum_check_entry rnd k a NaN]
                   | ms \<Rightarrow> map (\<lambda>m. sum_check_entry rnd k a (ch4_kt m)) ms) grouped)
         @ map (\<lambda>m. sum_check_entry rnd (row_key m) NaN (ch4_kt m))
             (filter (\<lambda>m. row_key m \<notin> set keys) inventory_df))"

text \<open>
  Lines 518 to 538, the mass raster of one year: every row of the year is handed to the
  rasterizer as the pair of its geometry and its allocated value. The dictionary
  \<open>ch4_kt_result_rasters\<close> has one item for every year of the facility table.
\<close>

definition ch4_kt_raster :: "rounding \<Rightarrow> gridding \<Rightarrow> gdf_row list \<Rightarrow> int \<Rightarrow> py_error + grid" where
  "ch4_kt_raster rnd G gdf yr =
     rasterize rnd (map (\<lambda>r. (geometry r, allocated_ch4_kt r)) (filter (\<lambda>r. year r = yr) gdf))
       (ARR_SHAPE G) (Fin 0) (GEPA_transform G)"

definition ch4_kt_result_rasters :: "rounding \<Rightarrow> gridding \<Rightarrow> gdf_row list \<Rightarrow> py_error + (int \<times> grid) list" where
  "ch4_kt_result_rasters rnd G gdf =
     collect (map (\<lambda>yr. case ch4_kt_raster rnd G gdf yr of Inl e \<Rightarrow> Inl e | Inr g \<Rightarrow> Inr (yr, g))
                (sort (remdups (map year gdf))))"

text \<open>
  Lines 548 to 571, the sums of one year and the three comparisons that are printed.
\<close>

record year_sums =
  raster_sum :: float64
  fac_sum :: float64
  emi_sum :: float64
  missing_sum :: float64
  raster_is_fac_sum :: bool
  raster_is_emi_sum :: bool
  gap_is_missing_sum :: bool

definition check_year_sums :: "rounding \<Rightarrow> gdf_row list \<Rightarrow> state_year_row list \<Rightarrow> int \<Rightarrow> grid \<Rightarrow> year_sums" where
  "check_year_sums rnd gdf inventory_df yr raster =
     (let raster_sum = array_sum rnd (concat raster);
          fac_sum = series_sum rnd (map allocated_ch4_kt (filter (\<lambda>r. year r = yr) gdf));
          emi_sum = series_sum rnd (map ch4_kt (filter (\<lambda>m. year m = yr) inventory_df));
          missing_sum = series_sum rnd (map sc_ch4_kt
             (filter (\<lambda>c. \<not> check_diff c \<and> sc_year c = yr) (sum_check rnd gdf inventory_df)))
      in \<lparr>raster_sum = raster_sum, fac_sum = fac_sum, emi_sum = emi_sum, missing_sum = missing_sum,
          raster_is_fac_sum = isclose rnd raster_sum fac_sum,
          raster_is_emi_sum = isclose rnd raster_sum emi_sum,
          gap_is_missing_sum = isclose rnd (fsub rnd emi_sum raster_sum) missing_sum\<rparr>)"

text \<open>
  The residual as the specification words it: the sum of the state totals of the year over
  the states with zero located facilities in that year, a located facility being a row of
  the facility table with a geometry.
\<close>

definition unlocated_states_total :: "rounding \<Rightarrow> gdf_row list \<Rightarrow> state_year_row list \<Rightarrow> int \<Rightarrow> float64" where
  "unlocated_states_total rnd gdf inventory_df yr =
     series_sum rnd (map ch4_kt (filter
       (\<lambda>m. year m = yr \<and>
            \<not> (\<exists>r \<in> set gdf. state_code r = state_code m \<and> year r = yr \<and> geometry r \<noteq> None))
       inventory_df))"

text \<open>Two notions used in the proofs: the entry the allocator computes, and the real
  number of a finite float.\<close>

definition allocated_entry :: "rounding \<Rightarrow> float64 \<Rightarrow> float64 \<Rightarrow> float64 \<Rightarrow> float64" where
  "allocated_entry rnd v s t = (if isnan (fmul rnd (fdiv rnd v s) t) then Fin 0 else fmul rnd (fdiv rnd v s) t)"

fun fin_value :: "float64 \<Rightarrow> real" where
  "fin_value (Fin x) = x"
| "fin_value _ = 0"

section \<open>Facts about the numbers\<close>

lemma binade_numeral:
  "binade (numeral k) x =
     (if x < 1 then binade (pred_numeral k) (2 * x) - 1
      else if 2 \<le> x then binade (pred_numeral k) (x / 2) + 1 else 0)"
  by (simp add: numeral_eq_Suc)

lemma rounded_zero [simp]: "rounded rnd 0 = Fin 0"
  by (cases rnd) (simp_all add: round64_def)

lemmas round64_eval = round64_def binade_numeral rne_def pow2_def Let_def

lemma array_sum_Fin: "array_sum Exact (map Fin xs) = Fin (sum_list xs)"
proof -
  have "foldl (fadd Exact) (Fin a) (map Fin xs) = Fin (a + sum_list xs)" for a
    by (induction xs arbitrary: a) (simp_all add: add.assoc)
  from this [of 0] show ?thesis by (simp add: array_sum_def)
qed

lemma series_sum_Fin: "series_sum Exact (map Fin xs) = Fin (sum_list xs)"
proof -
  have "filter (\<lambda>v. \<not> isnan v) (map Fin xs) = map Fin xs"
    by (induction xs) simp_all
  then show ?thesis by (simp add: series_sum_def array_sum_Fin)
qed

lemma fillna_Fin: "fillna v (map Fin xs) = map Fin xs"
  by (simp add: fillna_def)

lemma allocated_fac_emissions_Fin:
  assumes "sum_list vs \<noteq> 0"
  shows "allocated_fac_emissions Exact (map Fin vs) (Fin t) = map (\<lambda>v. Fin (v / sum_list vs * t)) vs"
proof -
  have "map (\<lambda>v. fmul Exact (fdiv Exact v (series_sum Exact (map Fin vs))) (Fin t)) (map Fin vs)
        = map Fin (map (\<lambda>v. v / sum_list vs * t) vs)"
    using assms by (simp add: series_sum_Fin)
  then show ?thesis
    unfolding allocated_fac_emissions_def by (simp only: fillna_Fin) simp
qed

lemma emi_sum_lookup_Inl:
  "emi_sum_lookup s y df = Inl e \<longleftrightarrow>
     e = IndexError \<and> \<not> (\<exists>r \<in> set df. state_code r = s \<and> year r = y)"
proof -
  have "filter (\<lambda>r. state_code r = s \<and> year r = y) df = [] \<longleftrightarrow>
        \<not> (\<exists>r \<in> set df. state_code r = s \<and> year r = y)"
    by (auto simp: filter_empty_conv)
  then show ?thesis
    by (auto simp: emi_sum_lookup_def iat0_def split: list.splits)
qed

lemma sum_list_scaled: "sum_list (map (\<lambda>v. v / s * t) vs) = sum_list vs / s * (t::real)"
  by (induction vs) (simp_all add: algebra_simps add_divide_distrib)

section \<open>Claims about the allocator\<close>




text \<open>
  C2. When the inventory has a row for the group and every facility value of the group is
  zero, the allocator returns zeros, one for each facility, whatever the state total in
  that row is (a finite number, an infinity or NaN): it returns a result, not an error, and
  no entry of the result is NaN. This holds with floats as it does in exact arithmetic.
\<close>

theorem allocation_zero_safety:
  assumes "emi_sum_lookup state yr inventory_df = Inr emi"
    and "\<forall>v \<in> set fac. v = Fin 0"
  shows "state_year_allocation_emissions rnd \<lparr>name = (state, yr), entries = fac\<rparr> inventory_df
           = Inr (replicate (length fac) (Fin 0))
         \<and> (\<forall>x \<in> set (replicate (length fac) (Fin 0)). \<not> isnan x)"
proof -
  have fac: "fac = replicate (length fac) (Fin 0)"
    using assms(2) by (simp add: replicate_length_same)
  have "filter (\<lambda>v. \<not> isnan v) (replicate n (Fin 0)) = replicate n (Fin 0)" for n
    by (induction n) simp_all
  moreover have "foldl (fadd rnd) (Fin 0) (replicate n (Fin 0)) = Fin 0" for n
    by (induction n) simp_all
  ultimately have zero: "series_sum rnd (replicate n (Fin 0)) = Fin 0" for n
    by (simp add: series_sum_def array_sum_def)
  have nan: "fmul rnd (inf_of_sign 0) emi = NaN"
    by (simp add: inf_of_sign_def)
  have "allocated_fac_emissions rnd (replicate n (Fin 0)) emi = replicate n (Fin 0)" for n
    by (simp add: allocated_fac_emissions_def zero nan fillna_def)
  from this [of "length fac"] fac have "allocated_fac_emissions rnd fac emi = replicate (length fac) (Fin 0)"
    by simp
  then show ?thesis
    using assms(1) by (simp add: state_year_allocation_emissions_def)
qed

theorem allocation_zero_safety_witness:
  "state_year_allocation_emissions Binary64 \<lparr>name = (''OH'', 2020), entries = [Fin 0, Fin 0, Fin 0]\<rparr>
       [\<lparr>state_code = ''OH'', year = 2020, ch4_kt = NaN\<rparr>] = Inr [Fin 0, Fin 0, Fin 0]"
proof -
  have look: "emi_sum_lookup ''OH'' 2020
      [\<lparr>state_code = ''OH'', year = 2020, ch4_kt = NaN\<rparr>] = Inr NaN"
    by (simp add: emi_sum_lookup_def iat0_def)
  have zeros: "\<forall>v \<in> set [Fin 0, Fin 0, Fin 0]. v = Fin 0"
    by simp
  from allocation_zero_safety [OF look zeros, of Binary64] show ?thesis
    by (simp add: numeral_3_eq_3)
qed

text \<open>
  C7, as amended. In exact arithmetic, for a group of two finite facility values \<open>a\<close> and
  \<open>b\<close> with a positive sum and a finite state total \<open>t\<close> found in the inventory, the
  allocator returns \<open>[t * a / (a + b), t * b / (a + b)]\<close>: each output is the total times
  the share of its input in the input sum.
\<close>

theorem allocation_proportional:
  assumes "emi_sum_lookup state yr inventory_df = Inr (Fin t)"
    and "0 < a + b"
  shows "state_year_allocation_emissions Exact
           \<lparr>name = (state, yr), entries = [Fin a, Fin b]\<rparr> inventory_df
         = Inr [Fin (t * a / (a + b)), Fin (t * b / (a + b))]"
proof -
  have "sum_list [a, b] \<noteq> 0"
    using assms(2) by simp
  from allocated_fac_emissions_Fin [OF this, of t]
  have "allocated_fac_emissions Exact [Fin a, Fin b] (Fin t)
        = [Fin (a / (a + b) * t), Fin (b / (a + b) * t)]"
    by simp
  then show ?thesis
    using assms(1) by (simp add: state_year_allocation_emissions_def mult.commute)
qed

theorem allocation_proportional_witness:
  "state_year_allocation_emissions Exact
       \<lparr>name = (''OH'', 2020), entries = [Fin 1, Fin 3]\<rparr>
       [\<lparr>state_code = ''OH'', year = 2020, ch4_kt = Fin 8\<rparr>] = Inr [Fin 2, Fin 6]"
proof -
  have look: "emi_sum_lookup ''OH'' 2020
      [\<lparr>state_code = ''OH'', year = 2020, ch4_kt = Fin 8\<rparr>] = Inr (Fin 8)"
    by (simp add: emi_sum_lookup_def iat0_def)
  have pos: "(0::real) < 1 + 3"
    by simp
  from allocation_proportional [OF look pos] show ?thesis
    by simp
qed

text \<open>
  The claim C7 as it is written, with the floats of the code, fails for the group
  \<open>[1.0, 9.0]\<close> and the total \<open>3.0\<close>. The code computes \<open>(1.0 / 10.0) * 3.0\<close>, which
  is \<open>0.30000000000000004\<close>, and not \<open>3.0 * 1.0 / 10.0\<close>, which is the float \<open>0.3\<close>;
  neither is the real number three tenths.
\<close>

theorem allocation_proportional_float_counterexample:
  "state_year_allocation_emissions Binary64
       \<lparr>name = (''OH'', 2020), entries = [Fin 1, Fin 9]\<rparr>
       [\<lparr>state_code = ''OH'', year = 2020, ch4_kt = Fin 3\<rparr>]
     = Inr [Fin (1351079888211149 / 4503599627370496),
            Fin (3039929748475085 / 1125899906842624)]
   \<and> fdiv Binary64 (fmul Binary64 (Fin 3) (Fin 1)) (fadd Binary64 (Fin 1) (Fin 9))
     = Fin (5404319552844595 / 18014398509481984)
   \<and> Fin (1351079888211149 / 4503599627370496)
     \<noteq> Fin (5404319552844595 / 18014398509481984)
   \<and> Fin (1351079888211149 / 4503599627370496) \<noteq> Fin (3 * 1 / (1 + 9))"
  by (simp add: state_year_allocation_emissions_def emi_sum_lookup_def iat0_def
      allocated_fac_emissions_def series_sum_def array_sum_def fillna_def round64_eval)

text \<open>
  C9. The allocator is partial: it fails with IndexError exactly when the inventory has no
  row for the state and year of the group, and it returns the allocated values exactly when
  the inventory has such a row. No arithmetic takes part in this, so it holds with floats
  as it does in exact arithmetic.
\<close>

theorem allocation_fails_without_inventory_row:
  "(state_year_allocation_emissions rnd \<lparr>name = (state, yr), entries = fac\<rparr> inventory_df
      = Inl IndexError)
     = (\<not> (\<exists>r \<in> set inventory_df. state_code r = state \<and> year r = yr))
   \<and> (\<exists>out. state_year_allocation_emissions rnd \<lparr>name = (state, yr), entries = fac\<rparr> inventory_df
      = Inr out)
     = (\<exists>r \<in> set inventory_df. state_code r = state \<and> year r = yr)"
proof (cases "emi_sum_lookup state yr inventory_df")
  case (Inl e)
  then show ?thesis
    using emi_sum_lookup_Inl [of state yr inventory_df e]
    by (simp add: state_year_allocation_emissions_def)
next
  case (Inr emi)
  then have "\<exists>r \<in> set inventory_df. state_code r = state \<and> year r = yr"
    using emi_sum_lookup_Inl [of state yr inventory_df IndexError] by simp
  then show ?thesis
    using Inr by (simp add: state_year_allocation_emissions_def)
qed

theorem allocation_fails_without_inventory_row_witness:
  "state_year_allocation_emissions Binary64 \<lparr>name = (''PA'', 2020), entries = [Fin 1]\<rparr>
       [\<lparr>state_code = ''OH'', year = 2020, ch4_kt = Fin 8\<rparr>,
        \<lparr>state_code = ''PA'', year = 2019, ch4_kt = Fin 2\<rparr>] = Inl IndexError"
  using allocation_fails_without_inventory_row
    [of Binary64 "''PA''" 2020 "[Fin 1]"
        "[\<lparr>state_code = ''OH'', year = 2020, ch4_kt = Fin 8\<rparr>,
          \<lparr>state_code = ''PA'', year = 2019, ch4_kt = Fin 2\<rparr>]"]
  by simp

section \<open>Claims about the conversion utility\<close>

lemma calc_conversion_factor_scalar:
  assumes "d \<noteq> 0"
  shows "calc_conversion_factor Exact d area_matrix
         = Inr (map (map (\<lambda>a. fdiv Exact (Fin (flux_factor d 1)) a)) area_matrix)"
proof -
  have "(16.04 :: real) * of_int d * 24 * 60 * 60 \<noteq> 0"
    using assms by simp
  moreover have "(10 ^ 9 * (6.02214129 * 10 ^ 23) :: real) / (16.04 * of_int d * 24 * 60 * 60)
      = flux_factor d 1"
    by (simp add: flux_factor_def)
  ultimately show ?thesis
    by (simp add: calc_conversion_factor_def float_of_int_def py_truediv_def Avogadro_def
        Molarch4_def)
qed

lemma flux_factor_cell: "flux_factor d 1 / a = flux_factor d a"
  by (simp add: flux_factor_def)

lemma flux_factor_pos: "0 < d \<Longrightarrow> 0 < a \<Longrightarrow> 0 < flux_factor d a"
  by (simp add: flux_factor_def)

text \<open>
  C4, as amended. In exact arithmetic, for a positive number of days and a matrix of
  strictly positive cell areas, the conversion utility returns, cell by cell, the value
  \<open>1e9 * 6.02214129e23 / (16.04 * days_in_year * 86400) / cell_area\<close>.
\<close>

theorem conversion_factor_formula:
  assumes "0 < days"
    and "\<forall>row \<in> set areas. \<forall>a \<in> set row. 0 < a"
  shows "calc_conversion_factor Exact days (map (map Fin) areas)
         = Inr (map (map (\<lambda>a. Fin (flux_factor days a))) areas)"
proof -
  have "days \<noteq> 0"
    using assms(1) by simp
  then have "calc_conversion_factor Exact days (map (map Fin) areas)
      = Inr (map (map (\<lambda>a. fdiv Exact (Fin (flux_factor days 1)) a)) (map (map Fin) areas))"
    by (rule calc_conversion_factor_scalar)
  moreover have "map (map (\<lambda>a. fdiv Exact (Fin (flux_factor days 1)) a)) (map (map Fin) areas)
      = map (map (\<lambda>a. Fin (flux_factor days a))) areas"
    using assms(2) by (auto simp: flux_factor_cell)
  ultimately show ?thesis
    by simp
qed

theorem conversion_factor_formula_witness:
  "calc_conversion_factor Exact 365 [[Fin 2, Fin 4]]
   = Inr [[Fin (flux_factor 365 2), Fin (flux_factor 365 4)]]
   \<and> flux_factor 365 2 = 10 ^ 9 * (6.02214129 * 10 ^ 23) / (16.04 * 365 * 86400) / 2"
proof -
  have "(0::int) < 365" and "\<forall>row \<in> set [[2, 4 :: real]]. \<forall>a \<in> set row. 0 < a"
    by simp_all
  from conversion_factor_formula [OF this] show ?thesis
    by (simp add: flux_factor_def)
qed

text \<open>
  The claim C4 as it is written, exactly that value, fails with the floats of the code.
  For 365 days and the cell area \<open>1.0\<close> the code returns 1190528975079424649068544
  (\<open>16.04 * 365 * 24 * 60 * 60\<close> is 505837440 in floats). The expression of the claim
  evaluated with floats is 1190528975079424783286272, the next float above
  (\<open>16.04 * 365 * 86400\<close> falls below 505837440 in floats), and the real number that the
  expression denotes is not the returned value either.
\<close>

theorem conversion_factor_float_counterexample:
  "calc_conversion_factor Binary64 365 [[Fin 1]] = Inr [[Fin 1190528975079424649068544]]
   \<and> flux_factor_float Binary64 365 (Fin 1) = Fin 1190528975079424783286272
   \<and> Fin 1190528975079424649068544 \<noteq> Fin (flux_factor 365 1)"
  by (simp add: calc_conversion_factor_def float_of_int_def py_truediv_def Avogadro_def
      Molarch4_def flux_factor_float_def flux_factor_def round64_eval)

text \<open>
  C8, as amended. In exact arithmetic, the factor of a cell is strictly decreasing in the
  area of that cell and in the number of days: with positive day counts and a positive
  area in the cell, a larger area in the cell gives a strictly smaller factor there, and a
  larger day count gives a strictly smaller factor there.
\<close>

theorem conversion_factor_strictly_decreasing:
  assumes "0 < d" and "0 < d'"
    and "i < length A" and "j < length (A ! i)" and "A ! i ! j = Fin a" and "0 < a"
    and "i < length B" and "j < length (B ! i)" and "B ! i ! j = Fin b"
  shows "\<exists>FA FB FA'.
           calc_conversion_factor Exact d A = Inr FA
         \<and> calc_conversion_factor Exact d B = Inr FB
         \<and> calc_conversion_factor Exact d' A = Inr FA'
         \<and> (a < b \<longrightarrow> flt (FB ! i ! j) (FA ! i ! j))
         \<and> (d < d' \<longrightarrow> flt (FA' ! i ! j) (FA ! i ! j))"
proof -
  let ?F = "\<lambda>n M. map (map (\<lambda>x. fdiv Exact (Fin (flux_factor n 1)) x)) M"
  have runs: "calc_conversion_factor Exact d A = Inr (?F d A)"
    "calc_conversion_factor Exact d B = Inr (?F d B)"
    "calc_conversion_factor Exact d' A = Inr (?F d' A)"
    using assms(1,2) by (simp_all add: calc_conversion_factor_scalar)
  have cellA: "?F n A ! i ! j = Fin (flux_factor n a)" for n
    using assms(3-6) by (simp add: flux_factor_cell)
  have area: "flt (?F d B ! i ! j) (?F d A ! i ! j)" if "a < b"
  proof -
    have "0 < b"
      using that assms(6) by simp
    then have "?F d B ! i ! j = Fin (flux_factor d b)"
      using assms(7-9) by (simp add: flux_factor_cell)
    moreover have "flux_factor d 1 / b < flux_factor d 1 / a"
      using that assms(1,6) flux_factor_pos [of d 1]
      by (simp add: divide_strict_left_mono)
    ultimately show ?thesis
      by (simp add: cellA flux_factor_cell)
  qed
  have days: "flt (?F d' A ! i ! j) (?F d A ! i ! j)" if "d < d'"
  proof -
    define K :: real where "K = 10 ^ 9 * (6.02214129 * 10 ^ 23) / (16.04 * 86400) / a"
    have K: "flux_factor n a = K / of_int n" for n
      by (simp add: flux_factor_def K_def)
    have "0 < K"
      using assms(6) by (simp add: K_def)
    moreover have "(of_int d :: real) < of_int d'" and "(0::real) < of_int d' * of_int d"
      using that assms(1,2) by simp_all
    ultimately have "K / of_int d' < K / of_int d"
      by (simp add: divide_strict_left_mono)
    then have "flux_factor d' a < flux_factor d a"
      by (simp only: K)
    then show ?thesis
      by (simp add: cellA)
  qed
  show ?thesis
    using runs area days by blast
qed

theorem conversion_factor_strictly_decreasing_witness:
  "\<exists>FA FB FA'.
       calc_conversion_factor Exact 365 [[Fin 1, Fin 2]] = Inr FA
     \<and> calc_conversion_factor Exact 365 [[Fin 1, Fin 3]] = Inr FB
     \<and> calc_conversion_factor Exact 366 [[Fin 1, Fin 2]] = Inr FA'
     \<and> flt (FB ! 0 ! 1) (FA ! 0 ! 1)
     \<and> flt (FA' ! 0 ! 1) (FA ! 0 ! 1)"
  using conversion_factor_strictly_decreasing
    [of 365 366 0 "[[Fin 1, Fin 2]]" 1 2 "[[Fin 1, Fin 3]]" 3]
  by simp

text \<open>
  The claim C8 as it is written, strictly decreasing, fails with the floats of the code
  for two areas that are neighbours among the floats: \<open>120000000.0\<close> and the next float
  above it, which is larger by \<open>2^-26\<close>, get the same factor for 365 days, so the factor
  of the larger area is not smaller.
\<close>

theorem conversion_factor_float_plateau_counterexample:
  "calc_conversion_factor Binary64 365 [[Fin 120000000, Fin (120000000 + 1 / 67108864)]]
     = Inr [[Fin 9921074792328538, Fin 9921074792328538]]
   \<and> round64 (120000000 + 1 / 67108864) = Fin (120000000 + 1 / 67108864)
   \<and> \<not> flt (Fin 9921074792328538) (Fin 9921074792328538)"
  by (simp add: calc_conversion_factor_def float_of_int_def py_truediv_def Avogadro_def
      Molarch4_def round64_eval)

section \<open>Claims about the NetCDF output\<close>

text \<open>
  The function itself is right. Whenever \<open>write_ncdf_output\<close> writes a file, the attribute \<open>title\<close> of the file is
  the argument given for the parameter \<open>title\<close>, the attribute \<open>description\<close> is the
  argument given for \<open>description\<close> and \<open>units\<close> the one given for \<open>units\<close>; the CRS
  and the transform are those of the grid profile and the nodata value is 0.
\<close>

theorem write_ncdf_output_attrs:
  assumes "write_ncdf_output G raster_dict dst_path description title units = Inr file"
  shows "map_of (attrs file) ''title'' = Some title
       \<and> map_of (attrs file) ''description'' = Some description
       \<and> map_of (attrs file) ''units'' = Some units
       \<and> written_crs file = GEPA_crs G
       \<and> written_transform file = GEPA_transform G
       \<and> nodata file = Fin 0"
  using assms
  by (auto simp: write_ncdf_output_def Let_def split: list.splits if_splits prod.splits)

theorem write_ncdf_output_attrs_witness:
  "\<exists>file. write_ncdf_output
       \<lparr>ARR_SHAPE = (1, 1), GEPA_crs = ''EPSG:4326'',
        GEPA_transform = \<lparr>aff_a = 1, aff_b = 0, aff_c = 0, aff_d = 0, aff_e = -1, aff_f = 1\<rparr>,
        grid_x = [1 / 2], grid_y = [1 / 2]\<rparr>
       [(2012, [[Fin 1]])] \<lparr>stem = ''out'', suffix = []\<rparr> ''a description'' ''a title'' ''kt''
       = Inr file
     \<and> map_of (attrs file) ''title'' = Some ''a title''
     \<and> map_of (attrs file) ''description'' = Some ''a description''
     \<and> map_of (attrs file) ''units'' = Some ''kt''
     \<and> nodata file = Fin 0"
proof -
  let ?G = "\<lparr>ARR_SHAPE = (1, 1), GEPA_crs = ''EPSG:4326'',
        GEPA_transform = \<lparr>aff_a = 1, aff_b = 0, aff_c = 0, aff_d = 0, aff_e = -1, aff_f = 1\<rparr>,
        grid_x = [1 / 2], grid_y = [1 / 2]\<rparr>"
  obtain written where written: "write_ncdf_output ?G [(2012, [[Fin 1]])]
      \<lparr>stem = ''out'', suffix = []\<rparr> ''a description'' ''a title'' ''kt'' = Inr written"
    by (simp add: write_ncdf_output_def array_shape_def)
  from write_ncdf_output_attrs [OF written] written show ?thesis
    by blast
qed

text \<open>
  C6 does not hold of the pipeline's call. For the rasters of the years 2012 and 2013 on a
  grid of one cell the file is written, its year range, units, CRS, transform and nodata
  value are the declared ones, but its \<open>title\<close> attribute is the declared description
  and its \<open>description\<close> attribute is the declared title, and the two strings differ.
\<close>

theorem netcdf_title_description_swapped:
  "\<exists>file. write_flux_ncdf
       \<lparr>ARR_SHAPE = (1, 1), GEPA_crs = ''EPSG:4326'',
        GEPA_transform = \<lparr>aff_a = 1, aff_b = 0, aff_c = 0, aff_d = 0, aff_e = -1, aff_f = 1\<rparr>,
        grid_x = [1 / 2], grid_y = [1 / 2]\<rparr>
       ''tmp'' [(2012, [[Fin 1]]), (2013, [[Fin 2]])] = Inr file
     \<and> map_of (attrs file) ''title'' = Some netcdf_description
     \<and> map_of (attrs file) ''description'' = Some netcdf_title
     \<and> netcdf_title \<noteq> netcdf_description
     \<and> map_of (attrs file) ''year'' = Some ''2012-2013''
     \<and> map_of (attrs file) ''units'' = Some ''moleccm-2s-1''
     \<and> written_crs file = ''EPSG:4326''
     \<and> written_transform file = \<lparr>aff_a = 1, aff_b = 0, aff_c = 0, aff_d = 0, aff_e = -1, aff_f = 1\<rparr>
     \<and> nodata file = Fin 0
     \<and> netcdf_title = ''EPA methane emissions from ferroalloy production''
     \<and> netcdf_description
         = ''Gridded EPA Inventory - industry - ferroalloy production - IPCC Source Category 2C2''"
proof -
  have d2012: "nat_digits 2012 = ''2012''" and d2013: "nat_digits 2013 = ''2013''"
    by (simp_all add: nat_digits.simps [of 2012] nat_digits.simps [of 2013]
        nat_digits.simps [of 201] nat_digits.simps [of 20] nat_digits.simps [of 2])
  show ?thesis
    by (simp add: write_flux_ncdf_def write_ncdf_output_def array_shape_def str_int_def
        d2012 d2013 netcdf_title_def netcdf_description_def SOURCE_NAME_def SECTOR_NAME_def
        IPCC_ID_def)
qed

section \<open>Claims about the name formatter\<close>

lemma casefold_char_kept:
  "in_kept_class (casefold_char c)
   \<Longrightarrow> casefold_char c \<in> set ''abcdefghijklmnopqrstuvwxyz0123456789 -''"
  unfolding in_kept_class_def casefold_char_def
  by (auto split: option.splits if_splits)

lemma set_re_sub_spaces: "set (re_sub_spaces s) \<subseteq> insert CHR '' '' (set s)"
proof (induction s rule: re_sub_spaces.induct)
  case 1
  then show ?case by simp
next
  case (2 c cs)
  have "set (dropWhile is_space cs) \<subseteq> set cs"
    by (rule set_dropWhileD [THEN subsetI])
  with 2 show ?case by auto
qed

text \<open>
  C10, as amended. \<open>name_formatter\<close> keeps the length of the series; an ASCII element is
  case folded, its runs of whitespace become single spaces, and then every character
  outside \<open>[a-zA-Z0-9 -]\<close> is removed wherever it stands in the element. What is left
  consists of lower case letters, digits, spaces and hyphens only.
\<close>

theorem name_formatter_removes_punctuation:
  assumes "i < length col" and "col ! i = Some s" and "ascii s"
  shows "length (name_formatter col) = length col
       \<and> name_formatter col ! i = Some (filter in_kept_class (re_sub_spaces (casefold s)))
       \<and> (\<forall>c \<in> set (filter in_kept_class (re_sub_spaces (casefold s))).
             c \<in> set ''abcdefghijklmnopqrstuvwxyz0123456789 -'')"
proof -
  have "name_formatter col ! i = Some (filter in_kept_class (re_sub_spaces (casefold s)))"
    using assms(1,2) by (simp add: name_formatter_def re_sub_non_alnum_def)
  moreover have "c \<in> set ''abcdefghijklmnopqrstuvwxyz0123456789 -''"
    if "c \<in> set (re_sub_spaces (casefold s))" and "in_kept_class c" for c
  proof (cases "c = CHR '' ''")
    case True
    then show ?thesis by simp
  next
    case False
    with that(1) set_re_sub_spaces [of "casefold s"] have "c \<in> set (casefold s)"
      by auto
    then obtain c' where "c = casefold_char c'"
      by (auto simp: casefold_def)
    with that(2) show ?thesis
      using casefold_char_kept by blast
  qed
  ultimately show ?thesis
    by (simp add: name_formatter_def)
qed

theorem name_formatter_removes_punctuation_witness:
  "ascii ''Bear Metallurgical Co.''
   \<and> name_formatter [None, Some ''Bear Metallurgical Co.''] ! 1 = Some ''bear metallurgical co''"
proof -
  have a: "ascii ''Bear Metallurgical Co.''"
    by (simp add: ascii_def)
  have "(1::nat) < length [None, Some ''Bear Metallurgical Co.'']"
    and "[None, Some ''Bear Metallurgical Co.''] ! 1 = Some ''Bear Metallurgical Co.''"
    by simp_all
  from name_formatter_removes_punctuation [OF this a] a show ?thesis
    by (simp add: casefold_def casefold_char_def is_space_def in_kept_class_def)
qed

text \<open>
  The claim C10 as it is written says that an element keeps its punctuation unless the
  whole element matches the pattern. This element does not consist of one character
  outside the class, and its comma and its full stops are removed all the same.
\<close>

theorem name_formatter_punctuation_counterexample:
  "name_formatter [Some ''Thompson Creek  Metals Co., Inc.'']
     = [Some ''thompson creek metals co inc'']
   \<and> name_formatter [Some ''Thompson Creek  Metals Co., Inc.'']
     \<noteq> [Some ''thompson creek metals co., inc.'']"
  by (simp add: name_formatter_def re_sub_non_alnum_def casefold_def casefold_char_def
      is_space_def in_kept_class_def)

section \<open>Claims about the rasterizer\<close>

lemma fadd_commute: "fadd Exact x y = fadd Exact y x"
  by (cases x; cases y) simp_all

lemma fadd_assoc: "fadd Exact (fadd Exact x y) z = fadd Exact x (fadd Exact y z)"
  by (cases x; cases y; cases z) simp_all

lemma fadd_zero [simp]: "fadd Exact (Fin 0) x = x" "fadd Exact x (Fin 0) = x"
  by (cases x; simp)+

lemma foldl_fadd: "foldl (fadd Exact) a xs = fadd Exact a (array_sum Exact xs)"
proof -
  have "foldl (fadd Exact) a xs = fadd Exact a (foldl (fadd Exact) (Fin 0) xs)"
  proof (induction xs rule: rev_induct)
    case Nil
    then show ?case by simp
  next
    case (snoc x xs)
    then show ?case by (simp add: fadd_assoc)
  qed
  then show ?thesis by (simp add: array_sum_def)
qed

lemma array_sum_mset:
  assumes "mset xs = mset ys"
  shows "array_sum Exact xs = array_sum Exact ys"
proof -
  have "fold (\<lambda>x s. fadd Exact s x) xs = fold (\<lambda>x s. fadd Exact s x) ys"
  proof (rule fold_multiset_equiv [OF _ assms])
    fix x y
    show "(\<lambda>s. fadd Exact s x) \<circ> (\<lambda>s. fadd Exact s y) = (\<lambda>s. fadd Exact s y) \<circ> (\<lambda>s. fadd Exact s x)"
      by (rule ext) (simp add: fadd_assoc fadd_commute [of x y])
  qed
  then show ?thesis
    by (simp add: array_sum_def foldl_conv_fold)
qed

lemma cell_of_in_range:
  "cell_of t out_shape geom = Some (r, c) \<Longrightarrow> r < fst out_shape \<and> c < snd out_shape"
  by (auto simp: cell_of_def split: option.splits prod.splits if_splits)

lemma has_shape_burn:
  assumes "has_shape g out_shape"
  shows "has_shape (burn rnd g rc v) out_shape"
proof -
  obtain r c where rc: "rc = (r, c)" by (cases rc)
  have "length row = snd out_shape"
    if "row \<in> set (g[r := (g ! r)[c := fadd rnd (g ! r ! c) v]])" for row
  proof (cases "r < length g")
    case True
    with that have "row = (g ! r)[c := fadd rnd (g ! r ! c) v] \<or> row \<in> set g"
      using set_update_subset_insert [of g r] by auto
    with True assms show ?thesis
      by (auto simp: has_shape_def)
  next
    case False
    then have "g[r := (g ! r)[c := fadd rnd (g ! r ! c) v]] = g"
      by (simp add: list_update_beyond)
    with that assms show ?thesis
      by (simp add: has_shape_def)
  qed
  with assms show ?thesis
    by (simp add: has_shape_def burn_def rc)
qed

lemma nth_burn:
  assumes "has_shape g out_shape" and "r < fst out_shape" and "c < snd out_shape"
    and "r' < fst out_shape" and "c' < snd out_shape"
  shows "burn rnd g (r', c') v ! r ! c = (if (r, c) = (r', c') then fadd rnd (g ! r ! c) v else g ! r ! c)"
  using assms by (auto simp: burn_def has_shape_def nth_list_update)

lemma has_shape_burn_shape:
  "has_shape g out_shape \<Longrightarrow> has_shape (burn_shape rnd t out_shape g s) out_shape"
  by (simp add: burn_shape_def has_shape_burn split: option.splits)

lemma has_shape_foldl:
  "has_shape g out_shape \<Longrightarrow> has_shape (foldl (burn_shape rnd t out_shape) g shapes) out_shape"
  by (induction shapes arbitrary: g) (simp_all add: has_shape_burn_shape)

lemma nth_foldl_burn_shape:
  assumes "has_shape g out_shape" and "r < fst out_shape" and "c < snd out_shape"
  shows "foldl (burn_shape rnd t out_shape) g shapes ! r ! c
         = foldl (fadd rnd) (g ! r ! c) (cell_entries t out_shape (r, c) shapes)"
  using assms(1)
proof (induction shapes arbitrary: g)
  case Nil
  then show ?case by (simp add: cell_entries_def)
next
  case (Cons s shapes)
  have shape': "has_shape (burn_shape rnd t out_shape g s) out_shape"
    using Cons.prems by (rule has_shape_burn_shape)
  have step: "burn_shape rnd t out_shape g s ! r ! c
      = (if cell_of t out_shape (fst s) = Some (r, c) then fadd rnd (g ! r ! c) (snd s) else g ! r ! c)"
  proof (cases "cell_of t out_shape (fst s)")
    case None
    then show ?thesis by (simp add: burn_shape_def)
  next
    case (Some rc)
    obtain r' c' where rc: "rc = (r', c')" by (cases rc)
    with Some cell_of_in_range have "r' < fst out_shape" "c' < snd out_shape" by blast+
    from nth_burn [OF Cons.prems assms(2,3) this] Some rc show ?thesis
      by (simp add: burn_shape_def)
  qed
  show ?case
    using Cons.IH [OF shape'] step by (simp add: cell_entries_def)
qed

lemma rasterize_cells:
  assumes "invertible t" and "r < h" and "c < w"
  shows "\<exists>g. rasterize rnd shapes (h, w) (Fin 0) t = Inr g \<and> has_shape g (h, w)
           \<and> g ! r ! c = array_sum rnd (cell_entries t (h, w) (r, c) shapes)"
proof -
  let ?init = "replicate h (replicate w (Fin 0))"
  have init: "has_shape ?init (h, w)"
    by (simp add: has_shape_def)
  from nth_foldl_burn_shape [OF init, of r c rnd t shapes] assms(2,3)
  have "foldl (burn_shape rnd t (h, w)) ?init shapes ! r ! c
      = array_sum rnd (cell_entries t (h, w) (r, c) shapes)"
    by (simp add: array_sum_def)
  with assms(1) has_shape_foldl [OF init, of rnd t shapes] show ?thesis
    by (simp add: rasterize_def)
qed

lemma rasterize_mset:
  assumes "mset shapes' = mset shapes"
  shows "rasterize Exact shapes' (h, w) (Fin 0) t = rasterize Exact shapes (h, w) (Fin 0) t"
proof (cases "invertible t")
  case False
  then show ?thesis by (simp add: rasterize_def)
next
  case True
  let ?init = "replicate h (replicate w (Fin 0))"
  let ?g = "foldl (burn_shape Exact t (h, w)) ?init shapes"
  let ?g' = "foldl (burn_shape Exact t (h, w)) ?init shapes'"
  have init: "has_shape ?init (h, w)"
    by (simp add: has_shape_def)
  have sh: "has_shape ?g (h, w)" "has_shape ?g' (h, w)"
    using has_shape_foldl [OF init] by blast+
  have cell: "?g' ! r ! c = ?g ! r ! c" if "r < h" "c < w" for r c
  proof -
    have "mset (cell_entries t (h, w) (r, c) shapes') = mset (cell_entries t (h, w) (r, c) shapes)"
      using assms by (simp add: cell_entries_def)
    then have "array_sum Exact (cell_entries t (h, w) (r, c) shapes')
        = array_sum Exact (cell_entries t (h, w) (r, c) shapes)"
      by (rule array_sum_mset)
    with that show ?thesis
      using nth_foldl_burn_shape [OF init, of r c Exact t] by (simp add: array_sum_def)
  qed
  have "?g' = ?g"
  proof (rule nth_equalityI)
    show "length ?g' = length ?g"
      using sh by (simp add: has_shape_def)
  next
    fix r assume "r < length ?g'"
    then have r: "r < h"
      using sh by (simp add: has_shape_def)
    then have "length (?g' ! r) = w" "length (?g ! r) = w"
      using sh by (simp_all add: has_shape_def)
    with cell [OF r] show "?g' ! r = ?g ! r"
      by (intro nth_equalityI) simp_all
  qed
  with True show ?thesis
    by (simp add: rasterize_def)
qed


text \<open>
  C3, as amended. With an invertible transform, rasterizing any list of features with fill
  0 returns a grid of the shape asked for; the value of every cell is the sum of the values
  of the features whose point falls in that cell, added in the order of the list; a cell
  in which no feature falls is 0; and, in exact arithmetic, a list with the same features
  in another order gives the same grid.
\<close>

theorem rasterize_additive:
  assumes "invertible t"
  shows "\<exists>g. rasterize rnd shapes (h, w) (Fin 0) t = Inr g
       \<and> length g = h \<and> (\<forall>row \<in> set g. length row = w)
       \<and> (\<forall>r < h. \<forall>c < w. g ! r ! c = array_sum rnd (cell_entries t (h, w) (r, c) shapes))
       \<and> (\<forall>r < h. \<forall>c < w. (\<forall>s \<in> set shapes. cell_of t (h, w) (fst s) \<noteq> Some (r, c))
             \<longrightarrow> g ! r ! c = Fin 0)
       \<and> (rnd = Exact \<longrightarrow>
            (\<forall>shapes'. mset shapes' = mset shapes
               \<longrightarrow> rasterize rnd shapes' (h, w) (Fin 0) t = Inr g))"
proof -
  let ?g = "foldl (burn_shape rnd t (h, w)) (replicate h (replicate w (Fin 0))) shapes"
  have run: "rasterize rnd shapes (h, w) (Fin 0) t = Inr ?g"
    using assms by (simp add: rasterize_def)
  have cells: "?g ! r ! c = array_sum rnd (cell_entries t (h, w) (r, c) shapes)"
    if "r < h" "c < w" for r c
    using rasterize_cells [OF assms that, of rnd shapes] run by simp
  have "has_shape (replicate h (replicate w (Fin 0))) (h, w)"
    by (simp add: has_shape_def)
  then have "has_shape ?g (h, w)"
    by (rule has_shape_foldl)
  then have dims: "length ?g = h" "\<forall>row \<in> set ?g. length row = w"
    by (simp_all add: has_shape_def)
  have empty: "?g ! r ! c = Fin 0"
    if "r < h" "c < w" "\<forall>s \<in> set shapes. cell_of t (h, w) (fst s) \<noteq> Some (r, c)" for r c
  proof -
    from that(3) have "cell_entries t (h, w) (r, c) shapes = []"
      by (simp add: cell_entries_def filter_empty_conv)
    with cells [OF that(1,2)] show ?thesis
      by (simp add: array_sum_def)
  qed
  have perm: "rasterize rnd shapes' (h, w) (Fin 0) t = Inr ?g"
    if "rnd = Exact" "mset shapes' = mset shapes" for shapes'
    using rasterize_mset [OF that(2), of h w t] run that(1) by simp
  show ?thesis
    using run dims cells empty perm by blast
qed

theorem rasterize_additive_witness:
  "\<exists>g. rasterize Exact [(Some (1 / 2, 1 / 2), Fin 3), (None, Fin 5), (Some (1 / 4, 3 / 4), Fin 4)]
          (1, 2) (Fin 0) \<lparr>aff_a = 1, aff_b = 0, aff_c = 0, aff_d = 0, aff_e = -1, aff_f = 1\<rparr> = Inr g
     \<and> g ! 0 ! 0 = Fin 7 \<and> g ! 0 ! 1 = Fin 0
     \<and> rasterize Exact [(Some (1 / 4, 3 / 4), Fin 4), (Some (1 / 2, 1 / 2), Fin 3), (None, Fin 5)]
          (1, 2) (Fin 0) \<lparr>aff_a = 1, aff_b = 0, aff_c = 0, aff_d = 0, aff_e = -1, aff_f = 1\<rparr> = Inr g"
proof -
  let ?t = "\<lparr>aff_a = 1, aff_b = 0, aff_c = 0, aff_d = 0, aff_e = -1, aff_f = 1\<rparr>"
  let ?shapes = "[(Some (1 / 2, 1 / 2), Fin 3), (None, Fin 5), (Some (1 / 4, 3 / 4), Fin 4)]"
  let ?shapes' = "[(Some (1 / 4, 3 / 4), Fin 4), (Some (1 / 2, 1 / 2), Fin 3), (None, Fin 5)]"
  have inv: "invertible ?t"
    by (simp add: invertible_def)
  from rasterize_additive [OF inv, of Exact ?shapes 1 2] obtain g
    where run: "rasterize Exact ?shapes (1, 2) (Fin 0) ?t = Inr g"
      and cells: "\<forall>r < 1. \<forall>c < 2. g ! r ! c = array_sum Exact (cell_entries ?t (1, 2) (r, c) ?shapes)"
      and perm: "\<forall>shapes'. mset shapes' = mset ?shapes
                   \<longrightarrow> rasterize Exact shapes' (1, 2) (Fin 0) ?t = Inr g"
    by blast
  have "g ! 0 ! 0 = array_sum Exact (cell_entries ?t (1, 2) (0, 0) ?shapes)"
    and "g ! 0 ! 1 = array_sum Exact (cell_entries ?t (1, 2) (0, 1) ?shapes)"
    using cells by simp_all
  then have "g ! 0 ! 0 = Fin 7" and "g ! 0 ! 1 = Fin 0"
    by (simp_all add: cell_entries_def cell_of_def rowcol_def array_sum_def)
  moreover have "mset ?shapes' = mset ?shapes"
    by simp
  with perm have "rasterize Exact ?shapes' (1, 2) (Fin 0) ?t = Inr g"
    by blast
  ultimately show ?thesis
    using run by blast
qed

text \<open>
  The claim C3 as it is written, the same grid for every order of the features, fails
  with floats, whose addition commutes but does not associate. Three features in the one
  cell of the grid with the values \<open>0.1\<close>, \<open>0.2\<close> and \<open>0.3\<close> sum to
  \<open>0.6000000000000001\<close> in this order and to \<open>0.6\<close> in the reverse order.
\<close>

theorem rasterize_float_order_counterexample:
  "rasterize Binary64
       [(Some (1 / 2, 1 / 2), round64 (1 / 10)), (Some (1 / 2, 1 / 2), round64 (2 / 10)),
        (Some (1 / 2, 1 / 2), round64 (3 / 10))]
       (1, 1) (Fin 0) \<lparr>aff_a = 1, aff_b = 0, aff_c = 0, aff_d = 0, aff_e = -1, aff_f = 1\<rparr>
     = Inr [[Fin (1351079888211149 / 2251799813685248)]]
   \<and> rasterize Binary64
       [(Some (1 / 2, 1 / 2), round64 (3 / 10)), (Some (1 / 2, 1 / 2), round64 (2 / 10)),
        (Some (1 / 2, 1 / 2), round64 (1 / 10))]
       (1, 1) (Fin 0) \<lparr>aff_a = 1, aff_b = 0, aff_c = 0, aff_d = 0, aff_e = -1, aff_f = 1\<rparr>
     = Inr [[Fin (5404319552844595 / 9007199254740992)]]
   \<and> Fin (1351079888211149 / 2251799813685248) \<noteq> Fin (5404319552844595 / 9007199254740992)"
  by (simp add: rasterize_def invertible_def burn_shape_def cell_of_def rowcol_def burn_def
      round64_eval)

section \<open>Claims about the mass conservation check\<close>

lemma collect_map_Inr: "collect (map Inr ys) = Inr ys"
  by (induction ys) simp_all

lemma collect_Inr: "collect xs = Inr ys \<longleftrightarrow> xs = map Inr ys"
proof
  show "collect xs = Inr ys \<Longrightarrow> xs = map Inr ys"
  proof (induction xs arbitrary: ys)
    case Nil
    then show ?case by simp
  next
    case (Cons x xs)
    show ?case
    proof (cases x)
      case (Inl e)
      with Cons.prems show ?thesis by simp
    next
      case (Inr y)
      with Cons.prems obtain zs where "collect xs = Inr zs" "ys = y # zs"
        by (auto split: sum.splits)
      with Cons.IH Inr show ?thesis by simp
    qed
  qed
next
  show "xs = map Inr ys \<Longrightarrow> collect xs = Inr ys"
    by (simp add: collect_map_Inr)
qed

lemma nth_filter_position:
  assumes "i < length xs" and "P (xs ! i)"
  shows "length (filter P (take i xs)) < length (filter P xs)"
    and "filter P xs ! length (filter P (take i xs)) = xs ! i"
proof -
  have "xs = take i xs @ xs ! i # drop (Suc i) xs"
    using assms(1) by (rule id_take_nth_drop)
  then have "filter P xs = filter P (take i xs) @ filter P (xs ! i # drop (Suc i) xs)"
    by (metis filter_append)
  then have eq: "filter P xs = filter P (take i xs) @ xs ! i # filter P (drop (Suc i) xs)"
    using assms(2) by simp
  have "length (filter P xs)
      = length (filter P (take i xs)) + Suc (length (filter P (drop (Suc i) xs)))"
    by (subst eq) simp
  then show "length (filter P (take i xs)) < length (filter P xs)"
    by simp
  show "filter P xs ! length (filter P (take i xs)) = xs ! i"
    by (subst eq) (simp add: nth_append)
qed

lemma transform_allocation_rows:
  assumes "transform_allocation rnd facilities inventory_df = Inr gdf"
  shows "length gdf = length facilities"
    and "i < length facilities \<Longrightarrow>
         \<exists>t. emi_sum_lookup (state_code (facilities ! i)) (year (facilities ! i)) inventory_df = Inr t
            \<and> gdf ! i = with_allocated (facilities ! i)
                 (allocated_entry rnd (ch4_kt (facilities ! i))
                    (series_sum rnd (group_entries (row_key (facilities ! i)) facilities)) t)"
proof -
  let ?f = "\<lambda>i. let r = facilities ! i; k = row_key r in
        case state_year_allocation_emissions rnd
               \<lparr>name = k, entries = group_entries k facilities\<rparr> inventory_df of
          Inl e \<Rightarrow> Inl e
        | Inr res \<Rightarrow>
            (let pos = length (filter (\<lambda>r'. row_key r' = k) (take i facilities)) in
             if pos < length res then Inr (with_allocated r (res ! pos)) else Inl ValueError)"
  from assms have eq: "map ?f [0..<length facilities] = map Inr gdf"
    by (simp add: transform_allocation_def collect_Inr)
  then have "length (map ?f [0..<length facilities]) = length (map Inr gdf :: (py_error + gdf_row) list)"
    by (rule arg_cong)
  then show len: "length gdf = length facilities"
    by simp
  assume i: "i < length facilities"
  let ?r = "facilities ! i"
  let ?k = "row_key ?r"
  let ?P = "\<lambda>r'. row_key r' = ?k"
  let ?pos = "length (filter ?P (take i facilities))"
  from eq i len have fi: "?f i = Inr (gdf ! i)"
    by (metis (no_types, lifting) add_0 length_map nth_map nth_upt)
  obtain t where t: "emi_sum_lookup (state_code ?r) (year ?r) inventory_df = Inr t"
    using fi by (cases "emi_sum_lookup (state_code ?r) (year ?r) inventory_df")
      (simp_all add: Let_def state_year_allocation_emissions_def row_key_def)
  let ?res = "allocated_fac_emissions rnd (group_entries ?k facilities) t"
  have res: "state_year_allocation_emissions rnd
               \<lparr>name = ?k, entries = group_entries ?k facilities\<rparr> inventory_df = Inr ?res"
    using t by (simp add: state_year_allocation_emissions_def row_key_def)
  have pos: "?pos < length (filter ?P facilities)" "filter ?P facilities ! ?pos = ?r"
    using nth_filter_position [of i facilities ?P] i by simp_all
  then have "?pos < length ?res"
    by (simp add: allocated_fac_emissions_def fillna_def group_entries_def)
  with fi res have "gdf ! i = with_allocated ?r (?res ! ?pos)"
    by (simp add: Let_def)
  moreover have "?res ! ?pos = allocated_entry rnd (ch4_kt ?r) (series_sum rnd (group_entries ?k facilities)) t"
    using pos by (simp add: allocated_fac_emissions_def fillna_def group_entries_def allocated_entry_def)
  ultimately show "\<exists>t. emi_sum_lookup (state_code ?r) (year ?r) inventory_df = Inr t
            \<and> gdf ! i = with_allocated ?r
                 (allocated_entry rnd (ch4_kt ?r) (series_sum rnd (group_entries ?k facilities)) t)"
    using t by simp
qed


lemma array_sum_append: "array_sum Exact (xs @ ys) = fadd Exact (array_sum Exact xs) (array_sum Exact ys)"
  by (simp add: array_sum_def foldl_fadd [of "foldl (fadd Exact) (Fin 0) xs" ys])

lemma array_sum_Cons: "array_sum Exact (x # xs) = fadd Exact x (array_sum Exact xs)"
  using array_sum_append [of "[x]" xs] by (simp add: array_sum_def)

lemma array_sum_update:
  assumes "i < length xs"
  shows "array_sum Exact (xs[i := fadd Exact (xs ! i) v]) = fadd Exact (array_sum Exact xs) v"
proof -
  let ?a = "array_sum Exact (take i xs)" and ?b = "array_sum Exact (drop (Suc i) xs)"
  have "array_sum Exact (xs[i := fadd Exact (xs ! i) v]) = fadd Exact ?a (fadd Exact (fadd Exact (xs ! i) v) ?b)"
    using assms by (simp add: upd_conv_take_nth_drop array_sum_append array_sum_Cons)
  also have "\<dots> = fadd Exact (fadd Exact ?a (fadd Exact (xs ! i) ?b)) v"
    by (metis fadd_assoc fadd_commute)
  also have "fadd Exact ?a (fadd Exact (xs ! i) ?b) = array_sum Exact (take i xs @ xs ! i # drop (Suc i) xs)"
    by (simp add: array_sum_append array_sum_Cons)
  also have "take i xs @ xs ! i # drop (Suc i) xs = xs"
    using assms by (simp add: id_take_nth_drop [symmetric])
  finally show ?thesis .
qed

lemma array_sum_concat_update:
  assumes "r < length g"
  shows "array_sum Exact (concat (g[r := row]))
         = fadd Exact (array_sum Exact (concat (take r g))) (fadd Exact (array_sum Exact row) (array_sum Exact (concat (drop (Suc r) g))))"
  using assms by (simp add: upd_conv_take_nth_drop array_sum_append)

lemma array_sum_concat_burn:
  assumes "has_shape g out_shape" and "r < fst out_shape" and "c < snd out_shape"
  shows "array_sum Exact (concat (burn Exact g (r, c) v)) = fadd Exact (array_sum Exact (concat g)) v"
proof -
  let ?a = "array_sum Exact (concat (take r g))" and ?b = "array_sum Exact (concat (drop (Suc r) g))"
  have r: "r < length g" and c: "c < length (g ! r)"
    using assms by (simp_all add: has_shape_def)
  have "array_sum Exact (concat (burn Exact g (r, c) v))
      = fadd Exact ?a (fadd Exact (fadd Exact (array_sum Exact (g ! r)) v) ?b)"
    using r c by (simp add: burn_def array_sum_concat_update array_sum_update)
  also have "\<dots> = fadd Exact (fadd Exact ?a (fadd Exact (array_sum Exact (g ! r)) ?b)) v"
    by (metis fadd_assoc fadd_commute)
  also have "fadd Exact ?a (fadd Exact (array_sum Exact (g ! r)) ?b) = array_sum Exact (concat (g[r := g ! r]))"
    using r by (simp only: array_sum_concat_update)
  finally show ?thesis
    by simp
qed

lemma array_sum_concat_foldl:
  assumes "has_shape g out_shape"
  shows "array_sum Exact (concat (foldl (burn_shape Exact t out_shape) g shapes))
         = fadd Exact (array_sum Exact (concat g))
             (array_sum Exact (map snd (filter (\<lambda>s. cell_of t out_shape (fst s) \<noteq> None) shapes)))"
  using assms
proof (induction shapes arbitrary: g)
  case Nil
  then show ?case by (simp add: array_sum_def)
next
  case (Cons s shapes)
  have shape': "has_shape (burn_shape Exact t out_shape g s) out_shape"
    using Cons.prems by (rule has_shape_burn_shape)
  show ?case
  proof (cases "cell_of t out_shape (fst s)")
    case None
    with Cons.IH [OF shape'] show ?thesis
      by (simp add: burn_shape_def)
  next
    case (Some rc)
    obtain r c where rc: "rc = (r, c)" by (cases rc)
    with Some cell_of_in_range have "r < fst out_shape" "c < snd out_shape" by blast+
    from array_sum_concat_burn [OF Cons.prems this] Some rc
    have "array_sum Exact (concat (burn_shape Exact t out_shape g s)) = fadd Exact (array_sum Exact (concat g)) (snd s)"
      by (simp add: burn_shape_def)
    with Cons.IH [OF shape'] Some show ?thesis
      by (simp add: array_sum_Cons fadd_assoc)
  qed
qed

lemma array_sum_concat_replicate: "array_sum Exact (concat (replicate h (replicate w (Fin 0)))) = Fin 0"
proof -
  have row: "array_sum Exact (replicate w (Fin 0)) = Fin 0"
    by (induction w) (simp_all add: array_sum_Cons, simp add: array_sum_def)
  show ?thesis
    by (induction h) (simp_all add: array_sum_append row, simp add: array_sum_def)
qed

lemma rasterize_total:
  assumes "rasterize Exact shapes out_shape (Fin 0) t = Inr g"
  shows "array_sum Exact (concat g)
         = array_sum Exact (map snd (filter (\<lambda>s. cell_of t out_shape (fst s) \<noteq> None) shapes))"
proof -
  let ?init = "replicate (fst out_shape) (replicate (snd out_shape) (Fin 0))"
  have "has_shape ?init out_shape"
    by (simp add: has_shape_def)
  from array_sum_concat_foldl [OF this, of t shapes] assms show ?thesis
    by (auto simp: rasterize_def array_sum_concat_replicate split: if_splits)
qed

lemma sum_list_indicator:
  assumes "distinct (map h ms)" and "k \<in> h ` set ms"
  shows "(\<Sum>m\<leftarrow>ms. if k = h m then c else 0) = (c::real)"
  using assms
proof (induction ms)
  case Nil
  then show ?case by simp
next
  case (Cons m ms)
  show ?case
  proof (cases "k = h m")
    case True
    with Cons.prems have "\<forall>m' \<in> set ms. k \<noteq> h m'"
      by auto
    then have "(\<Sum>m\<leftarrow>ms. if k = h m then c else 0) = 0"
      by (induction ms) simp_all
    with True show ?thesis by simp
  next
    case False
    with Cons show ?thesis by auto
  qed
qed

lemma sum_list_regroup:
  assumes "distinct (map h ms)" and "\<forall>x \<in> set xs. g x \<in> h ` set ms"
  shows "sum_list (map f xs) = (\<Sum>m\<leftarrow>ms. sum_list (map f (filter (\<lambda>x. g x = h m) xs)) :: real)"
  using assms(2)
proof (induction xs)
  case Nil
  then show ?case by simp
next
  case (Cons x xs)
  have "(\<Sum>m\<leftarrow>ms. sum_list (map f (filter (\<lambda>x. g x = h m) (x # xs))))
      = (\<Sum>m\<leftarrow>ms. (if g x = h m then f x else 0) + sum_list (map f (filter (\<lambda>x. g x = h m) xs)))"
    by (intro arg_cong [where f = sum_list] map_cong) simp_all
  also have "\<dots> = (\<Sum>m\<leftarrow>ms. if g x = h m then f x else 0)
      + (\<Sum>m\<leftarrow>ms. sum_list (map f (filter (\<lambda>x. g x = h m) xs)))"
    by (rule sum_list_addf)
  also have "(\<Sum>m\<leftarrow>ms. if g x = h m then f x else 0) = f x"
    using assms(1) Cons.prems by (intro sum_list_indicator) simp_all
  finally show ?case
    using Cons by simp
qed

lemma sum_list_filter_split:
  "sum_list (map f xs)
   = sum_list (map f (filter P xs)) + (sum_list (map f (filter (\<lambda>x. \<not> P x) xs)) :: real)"
  by (induction xs) simp_all

lemma filter_key_unique:
  assumes "distinct (map f xs)" and "x \<in> set xs"
  shows "filter (\<lambda>y. f y = f x) xs = [x]"
  using assms
proof (induction xs)
  case Nil
  then show ?case by simp
next
  case (Cons y ys)
  show ?case
  proof (cases "x = y")
    case True
    with Cons.prems(1) have "f x \<notin> f ` set ys"
      by simp
    then have "\<forall>z \<in> set ys. f z \<noteq> f x"
      by (metis imageI)
    then have "filter (\<lambda>y. f y = f x) ys = []"
      by (simp add: filter_empty_conv)
    with True show ?thesis by simp
  next
    case False
    with Cons.prems have "x \<in> set ys" "f y \<noteq> f x"
      by auto
    with Cons show ?thesis by simp
  qed
qed

lemma emi_sum_lookup_unique:
  assumes "distinct (map row_key inventory_df)" and "m \<in> set inventory_df"
  shows "emi_sum_lookup (state_code m) (year m) inventory_df = Inr (ch4_kt m)"
proof -
  have "filter (\<lambda>r. state_code r = state_code m \<and> year r = year m) inventory_df
      = filter (\<lambda>r. row_key r = row_key m) inventory_df"
    by (simp add: row_key_def)
  also have "\<dots> = [m]"
    using assms by (rule filter_key_unique)
  finally show ?thesis
    by (simp add: emi_sum_lookup_def iat0_def)
qed

lemma emi_sum_lookup_row:
  assumes "emi_sum_lookup s y inventory_df = Inr t"
  shows "\<exists>m \<in> set inventory_df. state_code m = s \<and> year m = y \<and> ch4_kt m = t"
proof -
  let ?sel = "filter (\<lambda>r. state_code r = s \<and> year r = y) inventory_df"
  from assms obtain m ms where sel: "?sel = m # ms" and "ch4_kt m = t"
    by (auto simp: emi_sum_lookup_def iat0_def split: list.splits)
  moreover from sel have "m \<in> set ?sel"
    by simp
  then have "m \<in> set inventory_df" "state_code m = s \<and> year m = y"
    by simp_all
  ultimately show ?thesis
    by blast
qed

lemma allocated_entry_Fin:
  assumes "s = 0 \<longrightarrow> v = 0"
  shows "allocated_entry Exact (Fin v) (Fin s) (Fin t) = Fin (v / s * t)"
  using assms by (simp add: allocated_entry_def inf_of_sign_def)

lemma isfinite_fin_value: "isfinite x \<Longrightarrow> x = Fin (fin_value x)"
  by (cases x) simp_all

lemma sum_list_nonneg_zero:
  assumes "sum_list xs = 0" and "\<forall>x \<in> set xs. 0 \<le> (x::real)" and "x \<in> set xs"
  shows "x = 0"
  using assms by (simp add: sum_list_nonneg_eq_0_iff)

lemma ch4_kt_result_rasters_item:
  assumes "ch4_kt_result_rasters rnd G gdf = Inr rasters" and "(yr, raster) \<in> set rasters"
  shows "ch4_kt_raster rnd G gdf yr = Inr raster"
proof -
  let ?f = "\<lambda>yr. case ch4_kt_raster rnd G gdf yr of Inl e \<Rightarrow> Inl e | Inr g \<Rightarrow> Inr (yr, g)"
  from assms(1) have "map ?f (sort (remdups (map year gdf))) = map Inr rasters"
    by (simp add: ch4_kt_result_rasters_def collect_Inr)
  then have "set (map ?f (sort (remdups (map year gdf)))) = set (map Inr rasters :: (py_error + int \<times> grid) list)"
    by (rule arg_cong)
  with assms(2) obtain y where "?f y = Inr (yr, raster)"
    by (metis (no_types, lifting) imageE image_eqI list.set_map)
  then show ?thesis
    by (cases "ch4_kt_raster rnd G gdf y") simp_all
qed

text \<open>
  C5, as amended. In exact arithmetic and within the data model of the specification (at
  most one inventory row for a state and year, finite totals, finite facility values that
  are not negative), take a year of the dictionary of mass rasters, the allocation having
  succeeded. If every group of the year that has a located facility has a facility sum
  that is not zero and all its facilities located inside the grid, then the sum of all
  state totals of the year minus the sum of the mass raster of the year is exactly the sum
  of the state totals of the states with zero located facilities in that year.
\<close>

theorem gap_is_unlocated_states_total:
  assumes alloc: "transform_allocation Exact facilities inventory_df = Inr gdf"
    and rasters: "ch4_kt_result_rasters Exact G gdf = Inr rasters"
    and item: "(yr, raster) \<in> set rasters"
    and keys: "distinct (map row_key inventory_df)"
    and inv_fin: "\<forall>m \<in> set inventory_df. isfinite (ch4_kt m)"
    and fac_fin: "\<forall>r \<in> set facilities. \<exists>v. ch4_kt r = Fin v \<and> 0 \<le> v"
    and located: "\<forall>r \<in> set facilities. year r = yr \<and> geometry r \<noteq> None \<longrightarrow>
         series_sum Exact (group_entries (row_key r) facilities) \<noteq> Fin 0
         \<and> (\<forall>r' \<in> set facilities. row_key r' = row_key r \<longrightarrow>
               cell_of (GEPA_transform G) (ARR_SHAPE G) (geometry r') \<noteq> None)"
  shows "fsub Exact (emi_sum (check_year_sums Exact gdf inventory_df yr raster))
              (raster_sum (check_year_sums Exact gdf inventory_df yr raster))
         = unlocated_states_total Exact gdf inventory_df yr"
proof -
  have raster: "ch4_kt_raster Exact G gdf yr = Inr raster"
    using rasters item by (rule ch4_kt_result_rasters_item)
  define \<tau> :: "state_year_row \<Rightarrow> real" where "\<tau> m = fin_value (ch4_kt m)" for m
  define val :: "fac_row \<Rightarrow> real" where "val r = fin_value (ch4_kt r)" for r
  define S where "S k = sum_list (map val (filter (\<lambda>r. row_key r = k) facilities))" for k
  define tk where "tk k = fin_value (case emi_sum_lookup (fst k) (snd k) inventory_df of
      Inr t \<Rightarrow> t | Inl _ \<Rightarrow> Fin 0)" for k
  define a where "a r = val r / S (row_key r) * tk (row_key r)" for r
  define W where "W r = with_allocated r (Fin (a r))" for r
  define ingrid where
    "ingrid r \<longleftrightarrow> cell_of (GEPA_transform G) (ARR_SHAPE G) (geometry r) \<noteq> None" for r :: fac_row
  define L where "L m \<longleftrightarrow> (\<exists>r \<in> set facilities.
      state_code r = state_code m \<and> year r = yr \<and> geometry r \<noteq> None)" for m :: state_year_row

  have val: "ch4_kt r = Fin (val r)" "0 \<le> val r" if "r \<in> set facilities" for r
    using fac_fin that by (auto simp: val_def)
  have group: "group_entries k facilities = map Fin (map val (filter (\<lambda>r. row_key r = k) facilities))"
    for k
    using val(1) by (simp add: group_entries_def)
  have group_sum: "series_sum Exact (group_entries k facilities) = Fin (S k)" for k
    by (simp only: group series_sum_Fin S_def)
  have tau: "ch4_kt m = Fin (\<tau> m)" if "m \<in> set inventory_df" for m
    using inv_fin that by (simp add: \<tau>_def isfinite_fin_value)
  have tk: "tk (row_key m) = \<tau> m" if "m \<in> set inventory_df" for m
    using emi_sum_lookup_unique [OF keys that] by (simp add: tk_def \<tau>_def row_key_def)

  have rows: "gdf = map W facilities"
  proof (rule nth_equalityI)
    show "length gdf = length (map W facilities)"
      using transform_allocation_rows(1) [OF alloc] by simp
  next
    fix i assume "i < length gdf"
    then have i: "i < length facilities"
      using transform_allocation_rows(1) [OF alloc] by simp
    let ?r = "facilities ! i"
    have r: "?r \<in> set facilities"
      using i by simp
    from transform_allocation_rows(2) [OF alloc i] obtain t
      where t: "emi_sum_lookup (state_code ?r) (year ?r) inventory_df = Inr t"
        and gi: "gdf ! i = with_allocated ?r
                 (allocated_entry Exact (ch4_kt ?r) (series_sum Exact (group_entries (row_key ?r) facilities)) t)"
      by blast
    from emi_sum_lookup_row [OF t] obtain m where "m \<in> set inventory_df" "ch4_kt m = t"
      by blast
    with tau have "t = Fin (fin_value t)"
      by (metis fin_value.simps(1))
    moreover have "tk (row_key ?r) = fin_value t"
      using t by (simp add: tk_def row_key_def)
    moreover have "S (row_key ?r) = 0 \<longrightarrow> val ?r = 0"
    proof
      assume "S (row_key ?r) = 0"
      moreover have "\<forall>x \<in> set (map val (filter (\<lambda>r. row_key r = row_key ?r) facilities)). 0 \<le> x"
        using val(2) by auto
      moreover have "val ?r \<in> set (map val (filter (\<lambda>r. row_key r = row_key ?r) facilities))"
        using r by auto
      ultimately show "val ?r = 0"
        unfolding S_def by (rule sum_list_nonneg_zero)
    qed
    ultimately have "allocated_entry Exact (ch4_kt ?r) (series_sum Exact (group_entries (row_key ?r) facilities)) t
        = Fin (a ?r)"
      using allocated_entry_Fin [of "S (row_key ?r)" "val ?r" "fin_value t"]
      by (simp add: val(1) [OF r] group_sum a_def)
    with gi i show "gdf ! i = map W facilities ! i"
      by (simp add: W_def)
  qed

  have raster_sum: "raster_sum (check_year_sums Exact gdf inventory_df yr raster)
      = Fin (sum_list (map a (filter (\<lambda>r. year r = yr \<and> ingrid r) facilities)))"
  proof -
    have "map (\<lambda>r. (geometry r, allocated_ch4_kt r)) (filter (\<lambda>r. year r = yr) gdf)
        = map (\<lambda>r. (geometry r, Fin (a r))) (filter (\<lambda>r. year r = yr) facilities)"
      by (simp add: rows filter_map comp_def W_def with_allocated_def)
    with raster have "rasterize Exact (map (\<lambda>r. (geometry r, Fin (a r))) (filter (\<lambda>r. year r = yr) facilities))
        (ARR_SHAPE G) (Fin 0) (GEPA_transform G) = Inr raster"
      by (simp add: ch4_kt_raster_def)
    from rasterize_total [OF this]
    have "array_sum Exact (concat raster)
        = array_sum Exact (map Fin (map a (filter (\<lambda>r. year r = yr \<and> ingrid r) facilities)))"
      by (simp add: filter_map comp_def ingrid_def conj_commute)
    also have "\<dots> = Fin (sum_list (map a (filter (\<lambda>r. year r = yr \<and> ingrid r) facilities)))"
      by (rule array_sum_Fin)
    finally show ?thesis
      by (simp add: check_year_sums_def Let_def)
  qed

  have emi_sum: "emi_sum (check_year_sums Exact gdf inventory_df yr raster)
      = Fin (sum_list (map \<tau> (filter (\<lambda>m. year m = yr) inventory_df)))"
  proof -
    have eq: "map ch4_kt (filter (\<lambda>m. year m = yr) inventory_df)
        = map Fin (map \<tau> (filter (\<lambda>m. year m = yr) inventory_df))"
      using tau by simp
    have "emi_sum (check_year_sums Exact gdf inventory_df yr raster)
        = series_sum Exact (map ch4_kt (filter (\<lambda>m. year m = yr) inventory_df))"
      by (simp add: check_year_sums_def Let_def)
    also have "\<dots> = Fin (sum_list (map \<tau> (filter (\<lambda>m. year m = yr) inventory_df)))"
      by (simp only: eq series_sum_Fin)
    finally show ?thesis .
  qed

  have unlocated: "unlocated_states_total Exact gdf inventory_df yr
      = Fin (sum_list (map \<tau> (filter (\<lambda>m. year m = yr \<and> \<not> L m) inventory_df)))"
  proof -
    have "(\<exists>r \<in> set gdf. state_code r = state_code m \<and> year r = yr \<and> geometry r \<noteq> None) = L m"
      for m :: state_year_row
      by (auto simp: rows L_def W_def with_allocated_def)
    then have "unlocated_states_total Exact gdf inventory_df yr
        = series_sum Exact (map ch4_kt (filter (\<lambda>m. year m = yr \<and> \<not> L m) inventory_df))"
      by (simp add: unlocated_states_total_def)
    also have "map ch4_kt (filter (\<lambda>m. year m = yr \<and> \<not> L m) inventory_df)
        = map Fin (map \<tau> (filter (\<lambda>m. year m = yr \<and> \<not> L m) inventory_df))"
      using tau by simp
    finally show ?thesis
      by (simp only: series_sum_Fin)
  qed

  let ?xs = "filter (\<lambda>r. year r = yr \<and> ingrid r) facilities"
  let ?ms = "filter (\<lambda>m. year m = yr \<and> L m) inventory_df"
  have located_sum: "sum_list (map a ?xs) = sum_list (map \<tau> ?ms)"
  proof -
    have dist: "distinct (map row_key ?ms)"
      using keys by (rule distinct_map_filter)
    have cover: "\<forall>x \<in> set ?xs. row_key x \<in> row_key ` set ?ms"
    proof
      fix x assume "x \<in> set ?xs"
      then have x: "x \<in> set facilities" "year x = yr" "ingrid x"
        by simp_all
      then have geo: "geometry x \<noteq> None"
        by (auto simp: ingrid_def cell_of_def split: option.splits)
      from x(1) obtain i where "i < length facilities" "facilities ! i = x"
        by (auto simp: in_set_conv_nth)
      with transform_allocation_rows(2) [OF alloc] obtain t
        where "emi_sum_lookup (state_code x) (year x) inventory_df = Inr t"
        by blast
      from emi_sum_lookup_row [OF this] obtain m
        where m: "m \<in> set inventory_df" "state_code m = state_code x" "year m = year x"
        by blast
      with x geo have "L m"
        by (auto simp: L_def)
      with m x(2) have "m \<in> set ?ms" "row_key m = row_key x"
        by (simp_all add: row_key_def)
      then show "row_key x \<in> row_key ` set ?ms"
        by (metis imageI)
    qed
    have inner: "sum_list (map a (filter (\<lambda>x. row_key x = row_key m) ?xs)) = \<tau> m"
      if "m \<in> set ?ms" for m
    proof -
      from that have m: "m \<in> set inventory_df" "year m = yr" "L m"
        by simp_all
      then obtain r0 where r0: "r0 \<in> set facilities" "state_code r0 = state_code m"
          "year r0 = yr" "geometry r0 \<noteq> None"
        by (auto simp: L_def)
      with m(2) have key0: "row_key r0 = row_key m"
        by (simp add: row_key_def)
      from located r0 key0 have nz: "S (row_key m) \<noteq> 0"
        and all_in: "\<forall>r' \<in> set facilities. row_key r' = row_key m \<longrightarrow> ingrid r'"
        by (auto simp: group_sum ingrid_def)
      have f1: "filter (\<lambda>x. row_key x = row_key m) ?xs
          = filter (\<lambda>x. row_key x = row_key m) facilities"
        unfolding filter_filter
      proof (rule filter_cong [OF refl])
        fix x assume "x \<in> set facilities"
        with all_in m(2) show "(((year x = yr \<and> ingrid x) \<and> row_key x = row_key m)) = (row_key x = row_key m)"
          by (auto simp: row_key_def)
      qed
      have f2: "map a (filter (\<lambda>x. row_key x = row_key m) facilities)
          = map (\<lambda>r. val r / S (row_key m) * tk (row_key m)) (filter (\<lambda>x. row_key x = row_key m) facilities)"
        by (rule map_cong) (simp_all add: a_def)
      have f3: "sum_list (map (\<lambda>r. val r / S (row_key m) * tk (row_key m))
            (filter (\<lambda>x. row_key x = row_key m) facilities))
          = S (row_key m) / S (row_key m) * tk (row_key m)"
        using sum_list_scaled [of "S (row_key m)" "tk (row_key m)"
            "map val (filter (\<lambda>x. row_key x = row_key m) facilities)"]
        by (simp add: S_def comp_def)
      have "sum_list (map a (filter (\<lambda>x. row_key x = row_key m) ?xs))
          = sum_list (map a (filter (\<lambda>x. row_key x = row_key m) facilities))"
        by (simp only: f1)
      also have "\<dots> = S (row_key m) / S (row_key m) * tk (row_key m)"
        by (simp only: f2 f3)
      also have "\<dots> = \<tau> m"
        using nz tk [OF m(1)] by simp
      finally show ?thesis .
    qed
    have "sum_list (map a ?xs)
        = (\<Sum>m\<leftarrow>?ms. sum_list (map a (filter (\<lambda>x. row_key x = row_key m) ?xs)))"
      using dist cover by (rule sum_list_regroup)
    also have "\<dots> = sum_list (map \<tau> ?ms)"
      by (intro arg_cong [where f = sum_list] map_cong refl inner)
    finally show ?thesis .
  qed

  have "sum_list (map \<tau> (filter (\<lambda>m. year m = yr) inventory_df))
      = sum_list (map \<tau> ?ms)
        + sum_list (map \<tau> (filter (\<lambda>m. year m = yr \<and> \<not> L m) inventory_df))"
    using sum_list_filter_split [of \<tau> "filter (\<lambda>m. year m = yr) inventory_df" L]
    by (simp add: conj_commute)
  then show ?thesis
    by (simp add: raster_sum emi_sum unlocated located_sum fsub_def)
qed

theorem gap_is_unlocated_states_total_witness:
  "transform_allocation Exact
       [\<lparr>state_code = ''OH'', year = 2020, ch4_kt = Fin 1, geometry = Some (1 / 2, 1 / 2)\<rparr>,
        \<lparr>state_code = ''OH'', year = 2020, ch4_kt = Fin 3, geometry = Some (3 / 2, 1 / 2)\<rparr>]
       [\<lparr>state_code = ''OH'', year = 2020, ch4_kt = Fin 8\<rparr>,
        \<lparr>state_code = ''PA'', year = 2020, ch4_kt = Fin 5\<rparr>]
     = Inr [\<lparr>state_code = ''OH'', year = 2020, ch4_kt = Fin 1, geometry = Some (1 / 2, 1 / 2),
          allocated_ch4_kt = Fin 2\<rparr>,
        \<lparr>state_code = ''OH'', year = 2020, ch4_kt = Fin 3, geometry = Some (3 / 2, 1 / 2),
          allocated_ch4_kt = Fin 6\<rparr>]
   \<and> ch4_kt_result_rasters Exact
       \<lparr>ARR_SHAPE = (1, 2), GEPA_crs = ''EPSG:4326'',
        GEPA_transform = \<lparr>aff_a = 1, aff_b = 0, aff_c = 0, aff_d = 0, aff_e = -1, aff_f = 1\<rparr>,
        grid_x = [1 / 2, 3 / 2], grid_y = [1 / 2]\<rparr>
       [\<lparr>state_code = ''OH'', year = 2020, ch4_kt = Fin 1, geometry = Some (1 / 2, 1 / 2),
          allocated_ch4_kt = Fin 2\<rparr>,
        \<lparr>state_code = ''OH'', year = 2020, ch4_kt = Fin 3, geometry = Some (3 / 2, 1 / 2),
          allocated_ch4_kt = Fin 6\<rparr>]
     = Inr [(2020, [[Fin 2, Fin 6]])]
   \<and> fsub Exact
       (emi_sum (check_year_sums Exact
       [\<lparr>state_code = ''OH'', year = 2020, ch4_kt = Fin 1, geometry = Some (1 / 2, 1 / 2),
          allocated_ch4_kt = Fin 2\<rparr>,
        \<lparr>state_code = ''OH'', year = 2020, ch4_kt = Fin 3, geometry = Some (3 / 2, 1 / 2),
          allocated_ch4_kt = Fin 6\<rparr>]
       [\<lparr>state_code = ''OH'', year = 2020, ch4_kt = Fin 8\<rparr>,
        \<lparr>state_code = ''PA'', year = 2020, ch4_kt = Fin 5\<rparr>] 2020 [[Fin 2, Fin 6]]))
       (raster_sum (check_year_sums Exact
       [\<lparr>state_code = ''OH'', year = 2020, ch4_kt = Fin 1, geometry = Some (1 / 2, 1 / 2),
          allocated_ch4_kt = Fin 2\<rparr>,
        \<lparr>state_code = ''OH'', year = 2020, ch4_kt = Fin 3, geometry = Some (3 / 2, 1 / 2),
          allocated_ch4_kt = Fin 6\<rparr>]
       [\<lparr>state_code = ''OH'', year = 2020, ch4_kt = Fin 8\<rparr>,
        \<lparr>state_code = ''PA'', year = 2020, ch4_kt = Fin 5\<rparr>] 2020 [[Fin 2, Fin 6]]))
     = Fin 5
   \<and> unlocated_states_total Exact
       [\<lparr>state_code = ''OH'', year = 2020, ch4_kt = Fin 1, geometry = Some (1 / 2, 1 / 2),
          allocated_ch4_kt = Fin 2\<rparr>,
        \<lparr>state_code = ''OH'', year = 2020, ch4_kt = Fin 3, geometry = Some (3 / 2, 1 / 2),
          allocated_ch4_kt = Fin 6\<rparr>]
       [\<lparr>state_code = ''OH'', year = 2020, ch4_kt = Fin 8\<rparr>,
        \<lparr>state_code = ''PA'', year = 2020, ch4_kt = Fin 5\<rparr>] 2020
     = Fin 5"
proof -
  let ?G = "\<lparr>ARR_SHAPE = (1, 2), GEPA_crs = ''EPSG:4326'',
       GEPA_transform = \<lparr>aff_a = 1, aff_b = 0, aff_c = 0, aff_d = 0, aff_e = -1, aff_f = 1\<rparr>,
       grid_x = [1 / 2, 3 / 2], grid_y = [1 / 2]\<rparr>"
  let ?F = "[\<lparr>state_code = ''OH'', year = 2020, ch4_kt = Fin 1, geometry = Some (1 / 2, 1 / 2)\<rparr>,
       \<lparr>state_code = ''OH'', year = 2020, ch4_kt = Fin 3, geometry = Some (3 / 2, 1 / 2)\<rparr>]"
  let ?I = "[\<lparr>state_code = ''OH'', year = 2020, ch4_kt = Fin 8\<rparr>,
       \<lparr>state_code = ''PA'', year = 2020, ch4_kt = Fin 5\<rparr>]"
  let ?gdf = "[\<lparr>state_code = ''OH'', year = 2020, ch4_kt = Fin 1, geometry = Some (1 / 2, 1 / 2),
         allocated_ch4_kt = Fin 2\<rparr>,
       \<lparr>state_code = ''OH'', year = 2020, ch4_kt = Fin 3, geometry = Some (3 / 2, 1 / 2),
         allocated_ch4_kt = Fin 6\<rparr>]"
  have alloc: "transform_allocation Exact ?F ?I = Inr ?gdf"
    by (simp add: transform_allocation_def upt_rec [of 0] upt_rec [of 1] upt_rec [of 2]
        row_key_def group_entries_def state_year_allocation_emissions_def
        emi_sum_lookup_def iat0_def allocated_fac_emissions_def series_sum_def array_sum_def
        fillna_def with_allocated_def inf_of_sign_def)
  have rasters: "ch4_kt_result_rasters Exact ?G ?gdf = Inr [(2020, [[Fin 2, Fin 6]])]"
    by (simp add: ch4_kt_result_rasters_def ch4_kt_raster_def rasterize_def invertible_def
        burn_shape_def cell_of_def rowcol_def burn_def numeral_2_eq_2)
  have item: "(2020, [[Fin 2, Fin 6]]) \<in> set [(2020 :: int, [[Fin 2, Fin 6]])]"
    by simp
  have keys: "distinct (map row_key ?I)"
    by (simp add: row_key_def)
  have inv_fin: "\<forall>m \<in> set ?I. isfinite (ch4_kt m)"
    by simp
  have fac_fin: "\<forall>r \<in> set ?F. \<exists>v. ch4_kt r = Fin v \<and> 0 \<le> v"
    by simp
  have located: "\<forall>r \<in> set ?F. year r = 2020 \<and> geometry r \<noteq> None \<longrightarrow>
         series_sum Exact (group_entries (row_key r) ?F) \<noteq> Fin 0
         \<and> (\<forall>r' \<in> set ?F. row_key r' = row_key r \<longrightarrow>
               cell_of (GEPA_transform ?G) (ARR_SHAPE ?G) (geometry r') \<noteq> None)"
    by (simp add: row_key_def group_entries_def series_sum_def array_sum_def cell_of_def rowcol_def
        del: not_None_eq)
  have unlocated: "unlocated_states_total Exact ?gdf ?I 2020 = Fin 5"
    by (simp add: unlocated_states_total_def series_sum_def array_sum_def del: not_None_eq)
  from gap_is_unlocated_states_total [OF alloc rasters item keys inv_fin fac_fin located]
    alloc rasters unlocated
  show ?thesis
    by simp
qed

text \<open>
  The claim C5 as it is written, for every year and exactly, fails in three ways, each
  shown with the floats of the code on a grid of two cells and with every facility
  located. A state whose only facility has the value 0 gets nothing allocated: the gap is
  its total 10, though the state has a located facility. A state with one facility in the
  grid and one located outside the grid (values 1 and 3, total 8) has 2 and 6 allocated
  and only the 2 rasterized: the gap is 6. And for a state with the values 1 and 4 in the
  grid and the total 3 the allocated floats are \<open>0.6000000000000001\<close> and
  \<open>2.4000000000000004\<close>, the raster sums to \<open>3.0000000000000004\<close> and the gap is
  \<open>-2^-51\<close>, not 0. In all three the states with zero located facilities have the
  total 0.
\<close>

theorem gap_unlocated_facility_counterexample:
  "transform_allocation Binary64
       [\<lparr>state_code = ''OH'', year = 2020, ch4_kt = Fin 0, geometry = Some (1 / 2, 1 / 2)\<rparr>]
       [\<lparr>state_code = ''OH'', year = 2020, ch4_kt = Fin 10\<rparr>]
     = Inr [\<lparr>state_code = ''OH'', year = 2020, ch4_kt = Fin 0, geometry = Some (1 / 2, 1 / 2),
          allocated_ch4_kt = Fin 0\<rparr>]
   \<and> ch4_kt_result_rasters Binary64
       \<lparr>ARR_SHAPE = (1, 2), GEPA_crs = ''EPSG:4326'',
        GEPA_transform = \<lparr>aff_a = 1, aff_b = 0, aff_c = 0, aff_d = 0, aff_e = -1, aff_f = 1\<rparr>,
        grid_x = [1 / 2, 3 / 2], grid_y = [1 / 2]\<rparr>
       [\<lparr>state_code = ''OH'', year = 2020, ch4_kt = Fin 0, geometry = Some (1 / 2, 1 / 2),
          allocated_ch4_kt = Fin 0\<rparr>]
     = Inr [(2020, [[Fin 0, Fin 0]])]
   \<and> fsub Binary64
       (emi_sum (check_year_sums Binary64
       [\<lparr>state_code = ''OH'', year = 2020, ch4_kt = Fin 0, geometry = Some (1 / 2, 1 / 2),
          allocated_ch4_kt = Fin 0\<rparr>]
       [\<lparr>state_code = ''OH'', year = 2020, ch4_kt = Fin 10\<rparr>] 2020 [[Fin 0, Fin 0]]))
       (raster_sum (check_year_sums Binary64
       [\<lparr>state_code = ''OH'', year = 2020, ch4_kt = Fin 0, geometry = Some (1 / 2, 1 / 2),
          allocated_ch4_kt = Fin 0\<rparr>]
       [\<lparr>state_code = ''OH'', year = 2020, ch4_kt = Fin 10\<rparr>] 2020 [[Fin 0, Fin 0]]))
     = Fin 10
   \<and> unlocated_states_total Binary64
       [\<lparr>state_code = ''OH'', year = 2020, ch4_kt = Fin 0, geometry = Some (1 / 2, 1 / 2),
          allocated_ch4_kt = Fin 0\<rparr>]
       [\<lparr>state_code = ''OH'', year = 2020, ch4_kt = Fin 10\<rparr>] 2020
     = Fin 0
   \<and> transform_allocation Binary64
       [\<lparr>state_code = ''OH'', year = 2020, ch4_kt = Fin 1, geometry = Some (1 / 2, 1 / 2)\<rparr>,
        \<lparr>state_code = ''OH'', year = 2020, ch4_kt = Fin 3, geometry = Some (5 / 2, 1 / 2)\<rparr>]
       [\<lparr>state_code = ''OH'', year = 2020, ch4_kt = Fin 8\<rparr>]
     = Inr [\<lparr>state_code = ''OH'', year = 2020, ch4_kt = Fin 1, geometry = Some (1 / 2, 1 / 2),
          allocated_ch4_kt = Fin 2\<rparr>,
        \<lparr>state_code = ''OH'', year = 2020, ch4_kt = Fin 3, geometry = Some (5 / 2, 1 / 2),
          allocated_ch4_kt = Fin 6\<rparr>]
   \<and> ch4_kt_result_rasters Binary64
       \<lparr>ARR_SHAPE = (1, 2), GEPA_crs = ''EPSG:4326'',
        GEPA_transform = \<lparr>aff_a = 1, aff_b = 0, aff_c = 0, aff_d = 0, aff_e = -1, aff_f = 1\<rparr>,
        grid_x = [1 / 2, 3 / 2], grid_y = [1 / 2]\<rparr>
       [\<lparr>state_code = ''OH'', year = 2020, ch4_kt = Fin 1, geometry = Some (1 / 2, 1 / 2),
          allocated_ch4_kt = Fin 2\<rparr>,
        \<lparr>state_code = ''OH'', year = 2020, ch4_kt = Fin 3, geometry = Some (5 / 2, 1 / 2),
          allocated_ch4_kt = Fin 6\<rparr>]
     = Inr [(2020, [[Fin 2, Fin 0]])]
   \<and> fsub Binary64
       (emi_sum (check_year_sums Binary64
       [\<lparr>state_code = ''OH'', year = 2020, ch4_kt = Fin 1, geometry = Some (1 / 2, 1 / 2),
          allocated_ch4_kt = Fin 2\<rparr>,
        \<lparr>state_code = ''OH'', year = 2020, ch4_kt = Fin 3, geometry = Some (5 / 2, 1 / 2),
          allocated_ch4_kt = Fin 6\<rparr>]
       [\<lparr>state_code = ''OH'', year = 2020, ch4_kt = Fin 8\<rparr>] 2020 [[Fin 2, Fin 0]]))
       (raster_sum (check_year_sums Binary64
       [\<lparr>state_code = ''OH'', year = 2020, ch4_kt = Fin 1, geometry = Some (1 / 2, 1 / 2),
          allocated_ch4_kt = Fin 2\<rparr>,
        \<lparr>state_code = ''OH'', year = 2020, ch4_kt = Fin 3, geometry = Some (5 / 2, 1 / 2),
          allocated_ch4_kt = Fin 6\<rparr>]
       [\<lparr>state_code = ''OH'', year = 2020, ch4_kt = Fin 8\<rparr>] 2020 [[Fin 2, Fin 0]]))
     = Fin 6
   \<and> unlocated_states_total Binary64
       [\<lparr>state_code = ''OH'', year = 2020, ch4_kt = Fin 1, geometry = Some (1 / 2, 1 / 2),
          allocated_ch4_kt = Fin 2\<rparr>,
        \<lparr>state_code = ''OH'', year = 2020, ch4_kt = Fin 3, geometry = Some (5 / 2, 1 / 2),
          allocated_ch4_kt = Fin 6\<rparr>]
       [\<lparr>state_code = ''OH'', year = 2020, ch4_kt = Fin 8\<rparr>] 2020
     = Fin 0
   \<and> transform_allocation Binary64
       [\<lparr>state_code = ''OH'', year = 2020, ch4_kt = Fin 1, geometry = Some (1 / 2, 1 / 2)\<rparr>,
        \<lparr>state_code = ''OH'', year = 2020, ch4_kt = Fin 4, geometry = Some (3 / 2, 1 / 2)\<rparr>]
       [\<lparr>state_code = ''OH'', year = 2020, ch4_kt = Fin 3\<rparr>]
     = Inr [\<lparr>state_code = ''OH'', year = 2020, ch4_kt = Fin 1, geometry = Some (1 / 2, 1 / 2),
          allocated_ch4_kt = Fin (1351079888211149 / 2251799813685248)\<rparr>,
        \<lparr>state_code = ''OH'', year = 2020, ch4_kt = Fin 4, geometry = Some (3 / 2, 1 / 2),
          allocated_ch4_kt = Fin (1351079888211149 / 562949953421312)\<rparr>]
   \<and> ch4_kt_result_rasters Binary64
       \<lparr>ARR_SHAPE = (1, 2), GEPA_crs = ''EPSG:4326'',
        GEPA_transform = \<lparr>aff_a = 1, aff_b = 0, aff_c = 0, aff_d = 0, aff_e = -1, aff_f = 1\<rparr>,
        grid_x = [1 / 2, 3 / 2], grid_y = [1 / 2]\<rparr>
       [\<lparr>state_code = ''OH'', year = 2020, ch4_kt = Fin 1, geometry = Some (1 / 2, 1 / 2),
          allocated_ch4_kt = Fin (1351079888211149 / 2251799813685248)\<rparr>,
        \<lparr>state_code = ''OH'', year = 2020, ch4_kt = Fin 4, geometry = Some (3 / 2, 1 / 2),
          allocated_ch4_kt = Fin (1351079888211149 / 562949953421312)\<rparr>]
     = Inr [(2020, [[Fin (1351079888211149 / 2251799813685248), Fin (1351079888211149 / 562949953421312)]])]
   \<and> fsub Binary64
       (emi_sum (check_year_sums Binary64
       [\<lparr>state_code = ''OH'', year = 2020, ch4_kt = Fin 1, geometry = Some (1 / 2, 1 / 2),
          allocated_ch4_kt = Fin (1351079888211149 / 2251799813685248)\<rparr>,
        \<lparr>state_code = ''OH'', year = 2020, ch4_kt = Fin 4, geometry = Some (3 / 2, 1 / 2),
          allocated_ch4_kt = Fin (1351079888211149 / 562949953421312)\<rparr>]
       [\<lparr>state_code = ''OH'', year = 2020, ch4_kt = Fin 3\<rparr>] 2020 [[Fin (1351079888211149 / 2251799813685248), Fin (1351079888211149 / 562949953421312)]]))
       (raster_sum (check_year_sums Binary64
       [\<lparr>state_code = ''OH'', year = 2020, ch4_kt = Fin 1, geometry = Some (1 / 2, 1 / 2),
          allocated_ch4_kt = Fin (1351079888211149 / 2251799813685248)\<rparr>,
        \<lparr>state_code = ''OH'', year = 2020, ch4_kt = Fin 4, geometry = Some (3 / 2, 1 / 2),
          allocated_ch4_kt = Fin (1351079888211149 / 562949953421312)\<rparr>]
       [\<lparr>state_code = ''OH'', year = 2020, ch4_kt = Fin 3\<rparr>] 2020 [[Fin (1351079888211149 / 2251799813685248), Fin (1351079888211149 / 562949953421312)]]))
     = Fin (- (1 / 2251799813685248))
   \<and> unlocated_states_total Binary64
       [\<lparr>state_code = ''OH'', year = 2020, ch4_kt = Fin 1, geometry = Some (1 / 2, 1 / 2),
          allocated_ch4_kt = Fin (1351079888211149 / 2251799813685248)\<rparr>,
        \<lparr>state_code = ''OH'', year = 2020, ch4_kt = Fin 4, geometry = Some (3 / 2, 1 / 2),
          allocated_ch4_kt = Fin (1351079888211149 / 562949953421312)\<rparr>]
       [\<lparr>state_code = ''OH'', year = 2020, ch4_kt = Fin 3\<rparr>] 2020
     = Fin 0"
proof -
  have zero1: "transform_allocation Binary64
        [\<lparr>state_code = ''OH'', year = 2020, ch4_kt = Fin 0, geometry = Some (1 / 2, 1 / 2)\<rparr>]
        [\<lparr>state_code = ''OH'', year = 2020, ch4_kt = Fin 10\<rparr>]
      = Inr [\<lparr>state_code = ''OH'', year = 2020, ch4_kt = Fin 0, geometry = Some (1 / 2, 1 / 2),
           allocated_ch4_kt = Fin 0\<rparr>]"
    by (simp add: transform_allocation_def upt_rec [of 0] upt_rec [of 1] upt_rec [of 2]
        row_key_def group_entries_def state_year_allocation_emissions_def
        emi_sum_lookup_def iat0_def allocated_fac_emissions_def series_sum_def array_sum_def
        fillna_def with_allocated_def inf_of_sign_def round64_eval)
  have zero2: "ch4_kt_result_rasters Binary64
        \<lparr>ARR_SHAPE = (1, 2), GEPA_crs = ''EPSG:4326'',
         GEPA_transform = \<lparr>aff_a = 1, aff_b = 0, aff_c = 0, aff_d = 0, aff_e = -1, aff_f = 1\<rparr>,
         grid_x = [1 / 2, 3 / 2], grid_y = [1 / 2]\<rparr>
        [\<lparr>state_code = ''OH'', year = 2020, ch4_kt = Fin 0, geometry = Some (1 / 2, 1 / 2),
           allocated_ch4_kt = Fin 0\<rparr>]
      = Inr [(2020, [[Fin 0, Fin 0]])]"
    by (simp add: ch4_kt_result_rasters_def ch4_kt_raster_def rasterize_def invertible_def
        burn_shape_def cell_of_def rowcol_def burn_def numeral_2_eq_2 round64_eval)
  have zero3: "fsub Binary64
        (emi_sum (check_year_sums Binary64
        [\<lparr>state_code = ''OH'', year = 2020, ch4_kt = Fin 0, geometry = Some (1 / 2, 1 / 2),
           allocated_ch4_kt = Fin 0\<rparr>]
        [\<lparr>state_code = ''OH'', year = 2020, ch4_kt = Fin 10\<rparr>] 2020 [[Fin 0, Fin 0]]))
        (raster_sum (check_year_sums Binary64
        [\<lparr>state_code = ''OH'', year = 2020, ch4_kt = Fin 0, geometry = Some (1 / 2, 1 / 2),
           allocated_ch4_kt = Fin 0\<rparr>]
        [\<lparr>state_code = ''OH'', year = 2020, ch4_kt = Fin 10\<rparr>] 2020 [[Fin 0, Fin 0]]))
      = Fin 10"
    by (simp add: check_year_sums_def sum_check_def sum_check_entry_def row_key_def
        series_sum_def array_sum_def fsub_def isclose_def round64_eval)
  have zero4: "unlocated_states_total Binary64
        [\<lparr>state_code = ''OH'', year = 2020, ch4_kt = Fin 0, geometry = Some (1 / 2, 1 / 2),
           allocated_ch4_kt = Fin 0\<rparr>]
        [\<lparr>state_code = ''OH'', year = 2020, ch4_kt = Fin 10\<rparr>] 2020
      = Fin 0"
    by (simp add: unlocated_states_total_def series_sum_def array_sum_def round64_eval
        del: not_None_eq)
  have outside1: "transform_allocation Binary64
        [\<lparr>state_code = ''OH'', year = 2020, ch4_kt = Fin 1, geometry = Some (1 / 2, 1 / 2)\<rparr>,
         \<lparr>state_code = ''OH'', year = 2020, ch4_kt = Fin 3, geometry = Some (5 / 2, 1 / 2)\<rparr>]
        [\<lparr>state_code = ''OH'', year = 2020, ch4_kt = Fin 8\<rparr>]
      = Inr [\<lparr>state_code = ''OH'', year = 2020, ch4_kt = Fin 1, geometry = Some (1 / 2, 1 / 2),
           allocated_ch4_kt = Fin 2\<rparr>,
         \<lparr>state_code = ''OH'', year = 2020, ch4_kt = Fin 3, geometry = Some (5 / 2, 1 / 2),
           allocated_ch4_kt = Fin 6\<rparr>]"
    by (simp add: transform_allocation_def upt_rec [of 0] upt_rec [of 1] upt_rec [of 2]
        row_key_def group_entries_def state_year_allocation_emissions_def
        emi_sum_lookup_def iat0_def allocated_fac_emissions_def series_sum_def array_sum_def
        fillna_def with_allocated_def inf_of_sign_def round64_eval)
  have outside2: "ch4_kt_result_rasters Binary64
        \<lparr>ARR_SHAPE = (1, 2), GEPA_crs = ''EPSG:4326'',
         GEPA_transform = \<lparr>aff_a = 1, aff_b = 0, aff_c = 0, aff_d = 0, aff_e = -1, aff_f = 1\<rparr>,
         grid_x = [1 / 2, 3 / 2], grid_y = [1 / 2]\<rparr>
        [\<lparr>state_code = ''OH'', year = 2020, ch4_kt = Fin 1, geometry = Some (1 / 2, 1 / 2),
           allocated_ch4_kt = Fin 2\<rparr>,
         \<lparr>state_code = ''OH'', year = 2020, ch4_kt = Fin 3, geometry = Some (5 / 2, 1 / 2),
           allocated_ch4_kt = Fin 6\<rparr>]
      = Inr [(2020, [[Fin 2, Fin 0]])]"
    by (simp add: ch4_kt_result_rasters_def ch4_kt_raster_def rasterize_def invertible_def
        burn_shape_def cell_of_def rowcol_def burn_def numeral_2_eq_2 round64_eval)
  have outside3: "fsub Binary64
        (emi_sum (check_year_sums Binary64
        [\<lparr>state_code = ''OH'', year = 2020, ch4_kt = Fin 1, geometry = Some (1 / 2, 1 / 2),
           allocated_ch4_kt = Fin 2\<rparr>,
         \<lparr>state_code = ''OH'', year = 2020, ch4_kt = Fin 3, geometry = Some (5 / 2, 1 / 2),
           allocated_ch4_kt = Fin 6\<rparr>]
        [\<lparr>state_code = ''OH'', year = 2020, ch4_kt = Fin 8\<rparr>] 2020 [[Fin 2, Fin 0]]))
        (raster_sum (check_year_sums Binary64
        [\<lparr>state_code = ''OH'', year = 2020, ch4_kt = Fin 1, geometry = Some (1 / 2, 1 / 2),
           allocated_ch4_kt = Fin 2\<rparr>,
         \<lparr>state_code = ''OH'', year = 2020, ch4_kt = Fin 3, geometry = Some (5 / 2, 1 / 2),
           allocated_ch4_kt = Fin 6\<rparr>]
        [\<lparr>state_code = ''OH'', year = 2020, ch4_kt = Fin 8\<rparr>] 2020 [[Fin 2, Fin 0]]))
      = Fin 6"
    by (simp add: check_year_sums_def sum_check_def sum_check_entry_def row_key_def
        series_sum_def array_sum_def fsub_def isclose_def round64_eval)
  have outside4: "unlocated_states_total Binary64
        [\<lparr>state_code = ''OH'', year = 2020, ch4_kt = Fin 1, geometry = Some (1 / 2, 1 / 2),
           allocated_ch4_kt = Fin 2\<rparr>,
         \<lparr>state_code = ''OH'', year = 2020, ch4_kt = Fin 3, geometry = Some (5 / 2, 1 / 2),
           allocated_ch4_kt = Fin 6\<rparr>]
        [\<lparr>state_code = ''OH'', year = 2020, ch4_kt = Fin 8\<rparr>] 2020
      = Fin 0"
    by (simp add: unlocated_states_total_def series_sum_def array_sum_def round64_eval
        del: not_None_eq)
  have rounding1: "transform_allocation Binary64
        [\<lparr>state_code = ''OH'', year = 2020, ch4_kt = Fin 1, geometry = Some (1 / 2, 1 / 2)\<rparr>,
         \<lparr>state_code = ''OH'', year = 2020, ch4_kt = Fin 4, geometry = Some (3 / 2, 1 / 2)\<rparr>]
        [\<lparr>state_code = ''OH'', year = 2020, ch4_kt = Fin 3\<rparr>]
      = Inr [\<lparr>state_code = ''OH'', year = 2020, ch4_kt = Fin 1, geometry = Some (1 / 2, 1 / 2),
           allocated_ch4_kt = Fin (1351079888211149 / 2251799813685248)\<rparr>,
         \<lparr>state_code = ''OH'', year = 2020, ch4_kt = Fin 4, geometry = Some (3 / 2, 1 / 2),
           allocated_ch4_kt = Fin (1351079888211149 / 562949953421312)\<rparr>]"
    by (simp add: transform_allocation_def upt_rec [of 0] upt_rec [of 1] upt_rec [of 2]
        row_key_def group_entries_def state_year_allocation_emissions_def
        emi_sum_lookup_def iat0_def allocated_fac_emissions_def series_sum_def array_sum_def
        fillna_def with_allocated_def inf_of_sign_def round64_eval)
  have rounding2: "ch4_kt_result_rasters Binary64
        \<lparr>ARR_SHAPE = (1, 2), GEPA_crs = ''EPSG:4326'',
         GEPA_transform = \<lparr>aff_a = 1, aff_b = 0, aff_c = 0, aff_d = 0, aff_e = -1, aff_f = 1\<rparr>,
         grid_x = [1 / 2, 3 / 2], grid_y = [1 / 2]\<rparr>
        [\<lparr>state_code = ''OH'', year = 2020, ch4_kt = Fin 1, geometry = Some (1 / 2, 1 / 2),
           allocated_ch4_kt = Fin (1351079888211149 / 2251799813685248)\<rparr>,
         \<lparr>state_code = ''OH'', year = 2020, ch4_kt = Fin 4, geometry = Some (3 / 2, 1 / 2),
           allocated_ch4_kt = Fin (1351079888211149 / 562949953421312)\<rparr>]
      = Inr [(2020, [[Fin (1351079888211149 / 2251799813685248), Fin (1351079888211149 / 562949953421312)]])]"
    by (simp add: ch4_kt_result_rasters_def ch4_kt_raster_def rasterize_def invertible_def
        burn_shape_def cell_of_def rowcol_def burn_def numeral_2_eq_2 round64_eval)
  have rounding3: "fsub Binary64
        (emi_sum (check_year_sums Binary64
        [\<lparr>state_code = ''OH'', year = 2020, ch4_kt = Fin 1, geometry = Some (1 / 2, 1 / 2),
           allocated_ch4_kt = Fin (1351079888211149 / 2251799813685248)\<rparr>,
         \<lparr>state_code = ''OH'', year = 2020, ch4_kt = Fin 4, geometry = Some (3 / 2, 1 / 2),
           allocated_ch4_kt = Fin (1351079888211149 / 562949953421312)\<rparr>]
        [\<lparr>state_code = ''OH'', year = 2020, ch4_kt = Fin 3\<rparr>] 2020 [[Fin (1351079888211149 / 2251799813685248), Fin (1351079888211149 / 562949953421312)]]))
        (raster_sum (check_year_sums Binary64
        [\<lparr>state_code = ''OH'', year = 2020, ch4_kt = Fin 1, geometry = Some (1 / 2, 1 / 2),
           allocated_ch4_kt = Fin (1351079888211149 / 2251799813685248)\<rparr>,
         \<lparr>state_code = ''OH'', year = 2020, ch4_kt = Fin 4, geometry = Some (3 / 2, 1 / 2),
           allocated_ch4_kt = Fin (1351079888211149 / 562949953421312)\<rparr>]
        [\<lparr>state_code = ''OH'', year = 2020, ch4_kt = Fin 3\<rparr>] 2020 [[Fin (1351079888211149 / 2251799813685248), Fin (1351079888211149 / 562949953421312)]]))
      = Fin (- (1 / 2251799813685248))"
    by (simp add: check_year_sums_def sum_check_def sum_check_entry_def row_key_def
        series_sum_def array_sum_def fsub_def isclose_def round64_eval)
  have rounding4: "unlocated_states_total Binary64
        [\<lparr>state_code = ''OH'', year = 2020, ch4_kt = Fin 1, geometry = Some (1 / 2, 1 / 2),
           allocated_ch4_kt = Fin (1351079888211149 / 2251799813685248)\<rparr>,
         \<lparr>state_code = ''OH'', year = 2020, ch4_kt = Fin 4, geometry = Some (3 / 2, 1 / 2),
           allocated_ch4_kt = Fin (1351079888211149 / 562949953421312)\<rparr>]
        [\<lparr>state_code = ''OH'', year = 2020, ch4_kt = Fin 3\<rparr>] 2020
      = Fin 0"
    by (simp add: unlocated_states_total_def series_sum_def array_sum_def round64_eval
        del: not_None_eq)
  from zero1 zero2 zero3 zero4 outside1 outside2 outside3 outside4 rounding1 rounding2 rounding3 rounding4 show ?thesis
    by (simp only: simp_thms)
qed

section \<open>Further properties of the allocation step\<close>

lemma collect_all_Inr: "(\<forall>x \<in> set xs. \<exists>y. x = Inr y) \<Longrightarrow> \<exists>ys. collect xs = Inr ys"
proof (induction xs)
  case Nil
  then show ?case by simp
next
  case (Cons x xs)
  then obtain y ys where "x = Inr y" "collect xs = Inr ys"
    by auto
  then show ?case by simp
qed

lemma collect_Inl: "collect xs = Inl e \<Longrightarrow> Inl e \<in> set xs"
proof (induction xs)
  case Nil
  then show ?case by simp
next
  case (Cons x xs)
  then show ?case
    by (cases x) (auto split: sum.splits)
qed

text \<open>
  The allocation of the whole facility table returns a table exactly when the inventory
  has a row for the state and year of every facility row; when it does not return a table
  it fails with IndexError.
\<close>

theorem transform_allocation_total:
  "(\<exists>gdf. transform_allocation rnd facilities inventory_df = Inr gdf)
     = (\<forall>r \<in> set facilities. \<exists>m \<in> set inventory_df. state_code m = state_code r \<and> year m = year r)
   \<and> (transform_allocation rnd facilities inventory_df = Inl IndexError)
     = (\<exists>r \<in> set facilities. \<not> (\<exists>m \<in> set inventory_df. state_code m = state_code r \<and> year m = year r))"
proof -
  define has where "has r \<longleftrightarrow> (\<exists>m \<in> set inventory_df. state_code m = state_code r \<and> year m = year r)"
    for r :: fac_row
  define f where "f = (\<lambda>i. let r = facilities ! i; k = row_key r in
        case state_year_allocation_emissions rnd
               \<lparr>name = k, entries = group_entries k facilities\<rparr> inventory_df of
          Inl e \<Rightarrow> Inl e
        | Inr res \<Rightarrow>
            (let pos = length (filter (\<lambda>r'. row_key r' = k) (take i facilities)) in
             if pos < length res then Inr (with_allocated r (res ! pos)) else Inl ValueError))"
  have step: "(\<exists>y. f i = Inr y) = has (facilities ! i) \<and> (f i = Inl e \<longrightarrow> e = IndexError)"
    if i: "i < length facilities" for i e
  proof -
    let ?r = "facilities ! i"
    let ?k = "row_key ?r"
    show ?thesis
    proof (cases "emi_sum_lookup (state_code ?r) (year ?r) inventory_df")
      case (Inl e')
      then have "\<not> has ?r" "e' = IndexError"
        using emi_sum_lookup_Inl [of "state_code ?r" "year ?r" inventory_df e']
        by (simp_all add: has_def)
      with Inl show ?thesis
        by (auto simp: f_def Let_def state_year_allocation_emissions_def row_key_def)
    next
      case (Inr t)
      then have has: "has ?r"
        using emi_sum_lookup_Inl [of "state_code ?r" "year ?r" inventory_df IndexError]
        by (simp add: has_def)
      have "length (filter (\<lambda>r'. row_key r' = ?k) (take i facilities))
          < length (allocated_fac_emissions rnd (group_entries ?k facilities) t)"
        using nth_filter_position(1) [of i facilities "\<lambda>r'. row_key r' = ?k"] i
        by (simp add: allocated_fac_emissions_def fillna_def group_entries_def)
      with Inr has show ?thesis
        by (simp add: f_def Let_def state_year_allocation_emissions_def row_key_def)
    qed
  qed
  have run: "transform_allocation rnd facilities inventory_df = collect (map f [0..<length facilities])"
    by (simp add: transform_allocation_def f_def)
  have all: "(\<exists>gdf. transform_allocation rnd facilities inventory_df = Inr gdf) = (\<forall>r \<in> set facilities. has r)"
  proof
    assume "\<exists>gdf. transform_allocation rnd facilities inventory_df = Inr gdf"
    then obtain gdf where gdf: "map f [0..<length facilities] = map Inr gdf"
      unfolding run collect_Inr by blast
    show "\<forall>r \<in> set facilities. has r"
    proof
      fix r assume "r \<in> set facilities"
      then obtain i where i: "i < length facilities" "facilities ! i = r"
        by (auto simp: in_set_conv_nth)
      from gdf have "length (map f [0..<length facilities]) = length (map Inr gdf :: (py_error + gdf_row) list)"
        by (rule arg_cong)
      then have len: "length gdf = length facilities"
        by simp
      from gdf have "map f [0..<length facilities] ! i = (map Inr gdf :: (py_error + gdf_row) list) ! i"
        by (rule arg_cong)
      with len i(1) have "f i = Inr (gdf ! i)"
        by simp
      with step [OF i(1)] i(2) show "has r"
        by blast
    qed
  next
    assume hyp: "\<forall>r \<in> set facilities. has r"
    have "\<exists>y. x = Inr y" if "x \<in> set (map f [0..<length facilities])" for x
    proof -
      from that obtain i where "i < length facilities" "x = f i"
        by auto
      with step [of i] hyp show ?thesis
        by (metis nth_mem)
    qed
    then have "\<forall>x \<in> set (map f [0..<length facilities]). \<exists>y. x = Inr y"
      by blast
    from collect_all_Inr [OF this] show "\<exists>gdf. transform_allocation rnd facilities inventory_df = Inr gdf"
      by (simp only: run)
  qed
  have err: "e = IndexError" if "transform_allocation rnd facilities inventory_df = Inl e" for e
  proof -
    from that have "Inl e \<in> set (map f [0..<length facilities])"
      unfolding run by (rule collect_Inl)
    then obtain i where "i < length facilities" "f i = Inl e"
      by auto
    with step show ?thesis
      by blast
  qed
  have "(transform_allocation rnd facilities inventory_df = Inl IndexError)
      = (\<not> (\<exists>gdf. transform_allocation rnd facilities inventory_df = Inr gdf))"
    using err by (cases "transform_allocation rnd facilities inventory_df") auto
  with all show ?thesis
    by (simp add: has_def)
qed


theorem transform_allocation_total_witness:
  "transform_allocation Binary64
     [\<lparr>state_code = ''OH'', year = 2020, ch4_kt = Fin 3, geometry = None\<rparr>,
      \<lparr>state_code = ''PA'', year = 2020, ch4_kt = Fin 4, geometry = None\<rparr>]
     [\<lparr>state_code = ''OH'', year = 2020, ch4_kt = Fin 10\<rparr>,
      \<lparr>state_code = ''PA'', year = 2019, ch4_kt = Fin 5\<rparr>] = Inl IndexError"
  using transform_allocation_total
    [of Binary64
        "[\<lparr>state_code = ''OH'', year = 2020, ch4_kt = Fin 3, geometry = None\<rparr>,
          \<lparr>state_code = ''PA'', year = 2020, ch4_kt = Fin 4, geometry = None\<rparr>]"
        "[\<lparr>state_code = ''OH'', year = 2020, ch4_kt = Fin 10\<rparr>,
          \<lparr>state_code = ''PA'', year = 2019, ch4_kt = Fin 5\<rparr>]"]
  by simp

end
